theory Spec2Isabelle
  imports Complex_Main "HOL-Library.Sublist" "HOL-Library.Log_Nat" "HOL-Library.Multiset"
begin

section \<open>Career Adviser System: recommendation scorer and roadmap generator\<close>

text \<open>
  A shallow embedding of \<^verbatim>\<open>app.py\<close>, \<^verbatim>\<open>app_demo.py\<close>, \<^verbatim>\<open>recommender.py\<close> and the parts of
  \<^verbatim>\<open>models.py\<close> they read. ORM objects are records, relationships are lists held by the
  owning object, dictionaries are maps, exceptions and HTTP error responses are values of
  \<open>error\<close>, database writes are explicit state passing.
\<close>

subsection \<open>Python strings\<close>

text \<open>
  A Python \<^verbatim>\<open>str\<close> is modelled by its UTF-8 bytes (\<open>string\<close>). The substring test
  \<^verbatim>\<open>a in b\<close> is \<open>sublist a b\<close>. \<^verbatim>\<open>str.lower\<close> and \<^verbatim>\<open>str.strip\<close> are modelled on ASCII:
  \<open>lower\<close> maps \<open>A\<close>..\<open>Z\<close> to \<open>a\<close>..\<open>z\<close> and leaves every other byte alone, \<open>strip\<close>
  removes the ASCII characters for which \<^verbatim>\<open>str.isspace\<close> holds (codes 9 to 13, 28 to 31
  and 32) from both ends. Letters and spaces outside ASCII are outside this model.
\<close>

definition lower_char :: "char \<Rightarrow> char" where
  "lower_char c =
     (let n = (of_char c :: nat) in if 65 \<le> n \<and> n \<le> 90 then char_of (n + 32) else c)"

definition lower :: "string \<Rightarrow> string" where
  "lower s = map lower_char s"

definition isspace :: "char \<Rightarrow> bool" where
  "isspace c =
     (let n = (of_char c :: nat) in (9 \<le> n \<and> n \<le> 13) \<or> (28 \<le> n \<and> n \<le> 32))"

definition lstrip :: "string \<Rightarrow> string" where
  "lstrip s = dropWhile isspace s"

definition rstrip :: "string \<Rightarrow> string" where
  "rstrip s = rev (dropWhile isspace (rev s))"

definition strip :: "string \<Rightarrow> string" where
  "strip s = rstrip (lstrip s)"

text \<open>\<^verbatim>\<open>sep.join(xs)\<close>.\<close>

fun join :: "string \<Rightarrow> string list \<Rightarrow> string" where
  "join sep [] = []"
| "join sep [x] = x"
| "join sep (x # y # ys) = x @ sep @ join sep (y # ys)"

text \<open>The three characters of the source text outside ASCII, as their UTF-8 bytes.\<close>

definition en_dash :: string where
  "en_dash = [CHR 0xE2, CHR 0x80, CHR 0x93]"

definition bullet :: string where
  "bullet = [CHR 0xE2, CHR 0x80, CHR 0xA2]"

definition rightarrow :: string where
  "rightarrow = [CHR 0xE2, CHR 0x86, CHR 0x92]"

subsection \<open>The roadmap generator (\<^verbatim>\<open>build_roadmap\<close>)\<close>

text \<open>A phase is the dictionary \<^verbatim>\<open>{'title': ..., 'steps': [...]}\<close>.\<close>

record phase =
  title :: string
  steps :: "string list"

text \<open>\<^verbatim>\<open>SKILL_RESOURCES\<close>, the same table in \<^verbatim>\<open>app.py\<close> and \<^verbatim>\<open>app_demo.py\<close>.\<close>

definition SKILL_RESOURCES_items :: "(string \<times> string list) list" where
  "SKILL_RESOURCES_items =
     [(''python'', [''Official Python Tutorial'', ''Automate the Boring Stuff'']),
      (''sql'', [''SQLBolt'', ''Mode SQL Tutorial'']),
      (''data-structures'', [''NeetCode Roadmap'', ''CS50 Data Structures'']),
      (''statistics'', [''Khan Academy Stats'', ''Think Stats (book)'']),
      (''algorithms'', [''Grokking Algorithms'', ''CLRS (chapters 1'' @ en_dash @ ''4)'']),
      (''figma'', [''Figma Learn'', ''Build a UI Kit'']),
      (''design-principles'', [''Laws of UX'', ''Refactoring UI''])]"

definition SKILL_RESOURCES :: "string \<rightharpoonup> string list" where
  "SKILL_RESOURCES = map_of SKILL_RESOURCES_items"

text \<open>\<^verbatim>\<open>d.get(k, [])\<close>.\<close>

definition dict_get :: "('k \<rightharpoonup> 'v) \<Rightarrow> 'k \<Rightarrow> 'v \<Rightarrow> 'v" where
  "dict_get d k dflt = (case d k of None \<Rightarrow> dflt | Some v \<Rightarrow> v)"

text \<open>
  \<^verbatim>\<open>res = sep.join(SKILL_RESOURCES.get(s.lower(), [])[:2]) or "Pick a beginner resource"\<close>,
  where \<^verbatim>\<open>sep\<close> is a bullet between two spaces: the right operand of \<^verbatim>\<open>or\<close> is taken when
  the joined string is empty.
\<close>

definition suggested :: "string \<Rightarrow> string" where
  "suggested s =
     (let res = join ('' '' @ bullet @ '' '') (take 2 (dict_get SKILL_RESOURCES (lower s) []))
      in if res = [] then ''Pick a beginner resource'' else res)"

definition foundation_step :: "string \<Rightarrow> string" where
  "foundation_step s =
     ''Learn the basics of '' @ s @ '' (2'' @ en_dash @ ''3 weeks). Suggested: ''
       @ suggested s @ ''.''"

text \<open>The loop \<^verbatim>\<open>for s in missing_skills: ... steps.append(...)\<close>, with \<open>acc\<close> the list
  \<^verbatim>\<open>steps\<close> built so far.\<close>

fun foundation_loop :: "string list \<Rightarrow> string list \<Rightarrow> string list" where
  "foundation_loop [] acc = acc"
| "foundation_loop (s # ss) acc = foundation_loop ss (acc @ [foundation_step s])"

definition core_step :: "string \<Rightarrow> string" where
  "core_step s =
     ''Do 3'' @ en_dash @ ''5 medium practice sets for '' @ s
       @ ''. Summarize notes in a wiki/notion.''"

definition projects_phase :: phase where
  "projects_phase = \<lparr>title = ''Projects'', steps =
     [''Build Project 1: pick a small scoped idea (2 weeks).'',
      ''Build Project 2: increase scope, add 1 new concept (APIs, auth, charts, etc.).'',
      ''Write concise READMEs with screenshots; push everything to GitHub.'']\<rparr>"

definition portfolio_phase :: phase where
  "portfolio_phase = \<lparr>title = ''Portfolio'', steps =
     [''Create a clean portfolio page (about, skills, 2 projects, contact).'',
      ''Polish LinkedIn: headline, summary, skills, project links.'',
      ''Prepare a 5-minute project walkthrough (story '' @ rightarrow @ '' demo ''
         @ rightarrow @ '' learning).'']\<rparr>"

text \<open>The last phase is the only place where the two files differ (the second step).\<close>

definition apply_phase :: phase where
  "apply_phase = \<lparr>title = ''Apply & Iterate'', steps =
     [''Set a weekly target: 5 tailored applications + 1 coffee chat.'',
      ''Mock interviews weekly; log weak areas and revisit notes.'',
      ''Iterate projects based on feedback; ship small improvements weekly.'']\<rparr>"

definition apply_phase_demo :: phase where
  "apply_phase_demo = \<lparr>title = ''Apply & Iterate'', steps =
     [''Set a weekly target: 5 tailored applications + 1 coffee chat.'',
      ''Mock interviews weekly; keep a log of weak areas and revisit notes.'',
      ''Iterate projects based on feedback; ship small improvements weekly.'']\<rparr>"

text \<open>
  The body shared by both files: \<^verbatim>\<open>phases\<close> starts empty, the Foundations phase is appended
  under \<^verbatim>\<open>if missing_skills:\<close>, the four other phases are appended always.
\<close>

definition roadmap_phases :: "phase \<Rightarrow> string \<Rightarrow> string list \<Rightarrow> string list \<Rightarrow> phase list" where
  "roadmap_phases last_phase career_title required_skills missing_skills =
     (let phases = [];
          phases = (if missing_skills \<noteq> []
                    then phases @ [\<lparr>title = ''Foundations'',
                                    steps = foundation_loop missing_skills []\<rparr>]
                    else phases);
          phases = phases @ [\<lparr>title = ''Core Practice'',
                               steps = map core_step required_skills\<rparr>];
          phases = phases @ [projects_phase];
          phases = phases @ [portfolio_phase];
          phases = phases @ [last_phase]
      in phases)"

text \<open>\<^verbatim>\<open>build_roadmap\<close> of \<^verbatim>\<open>app.py\<close>.\<close>

definition build_roadmap :: "string \<Rightarrow> string list \<Rightarrow> string list \<Rightarrow> phase list" where
  "build_roadmap = roadmap_phases apply_phase"

text \<open>\<^verbatim>\<open>build_roadmap\<close> of \<^verbatim>\<open>app_demo.py\<close>.\<close>

definition build_roadmap_demo :: "string \<Rightarrow> string list \<Rightarrow> string list \<Rightarrow> phase list" where
  "build_roadmap_demo = roadmap_phases apply_phase_demo"

subsection \<open>The standalone recommender (\<^verbatim>\<open>recommender.py\<close>)\<close>

text \<open>A recommendation is the dictionary \<^verbatim>\<open>{'career': ..., 'skills': [...]}\<close>; the web route
  builds dictionaries of the same shape for its template.\<close>

record rec =
  rec_career :: string
  rec_skills :: "string list"

text \<open>\<^verbatim>\<open>CAREER_MAP\<close>, in insertion order (the order \<^verbatim>\<open>for k in CAREER_MAP\<close> visits).\<close>

definition CAREER_MAP :: "(string \<times> rec) list" where
  "CAREER_MAP =
     [(''programming'', \<lparr>rec_career = ''Software Engineer'',
          rec_skills = [''python'', ''data-structures'', ''algorithms'']\<rparr>),
      (''biology'', \<lparr>rec_career = ''Biotech Researcher'',
          rec_skills = [''molecular-bio'', ''lab-techniques'', ''statistics'']\<rparr>),
      (''data'', \<lparr>rec_career = ''Data Analyst'',
          rec_skills = [''python'', ''sql'', ''statistics'']\<rparr>),
      (''design'', \<lparr>rec_career = ''UI/UX Designer'',
          rec_skills = [''design-principles'', ''figma'', ''portfolio'']\<rparr>)]"

text \<open>The inner loop \<^verbatim>\<open>for k in CAREER_MAP: if k in key or key in k: recs.append(CAREER_MAP[k])\<close>.\<close>

fun key_loop :: "(string \<times> rec) list \<Rightarrow> string \<Rightarrow> rec list \<Rightarrow> rec list" where
  "key_loop [] key recs = recs"
| "key_loop ((k, v) # kvs) key recs =
     key_loop kvs key (if sublist k key \<or> sublist key k then recs @ [v] else recs)"

text \<open>The outer loop \<^verbatim>\<open>for it in interests: key = it.lower().strip(); ...\<close>.\<close>

fun interests_loop :: "string list \<Rightarrow> rec list \<Rightarrow> rec list" where
  "interests_loop [] recs = recs"
| "interests_loop (it # its) recs = interests_loop its (key_loop CAREER_MAP (strip (lower it)) recs)"

text \<open>The loop that removes duplicates, with the set \<^verbatim>\<open>seen\<close> and the list \<^verbatim>\<open>out\<close>.\<close>

fun dedupe_loop :: "rec list \<Rightarrow> string set \<Rightarrow> rec list \<Rightarrow> rec list" where
  "dedupe_loop [] seen out = out"
| "dedupe_loop (r # rs) seen out =
     (if rec_career r \<notin> seen then dedupe_loop rs (insert (rec_career r) seen) (out @ [r])
      else dedupe_loop rs seen out)"

definition get_recommendations :: "string list \<Rightarrow> string list \<Rightarrow> rec list" where
  "get_recommendations interests skills =
     (let recs = interests_loop interests [];
          out = dedupe_loop recs {} []
      in if out = []
         then [\<lparr>rec_career = ''General Counseling'',
                 rec_skills = [''communication'', ''career-planning'']\<rparr>]
         else out)"

text \<open>
  \<^verbatim>\<open>skill_gap\<close>. \<^verbatim>\<open>missing = list(required - user)\<close> lists a set in an order Python does not
  fix, so the value stored under a career is modelled by the set of its elements.
\<close>

fun gap_loop :: "rec list \<Rightarrow> string set \<Rightarrow> (string \<rightharpoonup> string set) \<Rightarrow> (string \<rightharpoonup> string set)" where
  "gap_loop [] user gaps = gaps"
| "gap_loop (r # rs) user gaps =
     (let required = set (rec_skills r);
          missing = required - user
      in gap_loop rs user (gaps(rec_career r \<mapsto> missing)))"

definition skill_gap :: "rec list \<Rightarrow> string list \<Rightarrow> (string \<rightharpoonup> string set)" where
  "skill_gap recs user_skills =
     (let user = set (map (\<lambda>s. strip (lower s)) user_skills)
      in gap_loop recs user Map.empty)"

subsection \<open>Python floats\<close>

text \<open>
  A finite Python \<^verbatim>\<open>float\<close> is the rational it denotes. \<open>fl\<close> rounds a rational to the nearest
  number with a 53-bit significand, ties to even, as IEEE 754 binary64 arithmetic does after
  every operation; the exponent range is not modelled (no overflow, no subnormal numbers),
  which no score reaches. \<open>float_exponent q\<close> is the \<open>e\<close> with \<open>2 ^ e \<le> q < 2 ^ (e + 1)\<close>
  for \<open>q > 0\<close>.
\<close>

definition round_half_even :: "rat \<Rightarrow> int" where
  "round_half_even q =
     (let f = \<lfloor>q\<rfloor>; d = q - of_int f
      in if d < 1 / 2 then f else if 1 / 2 < d then f + 1 else if even f then f else f + 1)"

definition float_exponent :: "rat \<Rightarrow> int" where
  "float_exponent q =
     (let (a, b) = quotient_of q; d = bitlen a - bitlen b
      in if 2 powi d \<le> q then d else d - 1)"

definition fl :: "rat \<Rightarrow> rat" where
  "fl q =
     (if q = 0 then 0
      else let u = 2 powi (float_exponent \<bar>q\<bar> - 52)
           in of_int (round_half_even (q / u)) * u)"

definition fadd :: "rat \<Rightarrow> rat \<Rightarrow> rat" where
  "fadd a b = fl (a + b)"

definition fmul :: "rat \<Rightarrow> rat \<Rightarrow> rat" where
  "fmul a b = fl (a * b)"

text \<open>The conversion of an \<^verbatim>\<open>int\<close> operand of a mixed operation.\<close>

definition float_of_int :: "int \<Rightarrow> rat" where
  "float_of_int n = fl (of_int n)"

text \<open>The literal \<^verbatim>\<open>0.8\<close>.\<close>

definition f08 :: rat where
  "f08 = fl (4 / 5)"

subsection \<open>The database (\<^verbatim>\<open>models.py\<close>)\<close>

text \<open>
  Each model class is a record of the columns and relationships the routes read; a
  relationship is the list of related rows in the order the query returns them, a nullable
  column or a many-to-one relationship that may be absent is an \<open>option\<close>. \<^verbatim>\<open>Skill.name\<close>,
  \<^verbatim>\<open>Career.title\<close> and \<^verbatim>\<open>Resource.title\<close> are declared \<^verbatim>\<open>nullable=False\<close>.
\<close>

record Skill =
  skill_name :: string

record UserSkill =
  us_name :: "string option"

record CareerSkillRequirement =
  req_skill :: "Skill option"

record Resource =
  res_title :: string
  res_url :: "string option"

record Career =
  career_id :: nat
  career_title :: string
  requirements :: "CareerSkillRequirement list"
  resources :: "Resource list"

record User =
  user_id :: nat
  interests :: "string option"
  skills_text :: "string option"
  skills :: "UserSkill list"

record Plan =
  plan_id :: nat
  plan_user_id :: nat
  plan_career_id :: "nat option"
  plan_title :: string

record PlanStep =
  step_plan_id :: "nat option"
  step_title :: string
  sort_order :: int

record database =
  users :: "User list"
  careers :: "Career list"
  resource_rows :: "Resource list"
  plans :: "Plan list"
  plan_steps :: "PlanStep list"

text \<open>What a route can end with other than its normal response: \<^verbatim>\<open>get_or_404\<close>, an explicit
  400 response with its message, an uncaught \<^verbatim>\<open>AttributeError\<close> (with the attribute's name)
  or \<^verbatim>\<open>TypeError\<close> (with the type's name), and the \<^verbatim>\<open>IntegrityError\<close> of a rejected insert.\<close>

datatype error =
  NotFound | BadRequest string | AttributeError string | TypeError string | IntegrityError

subsection \<open>Helpers of \<^verbatim>\<open>app.py\<close>\<close>

text \<open>\<^verbatim>\<open>s.split(sep)\<close> for a one-character separator.\<close>

fun split :: "char \<Rightarrow> string \<Rightarrow> string list" where
  "split sep [] = [[]]"
| "split sep (c # cs) =
     (if c = sep then [] # split sep cs
      else (case split sep cs of [] \<Rightarrow> [[c]] | w # ws \<Rightarrow> (c # w) # ws))"

text \<open>\<^verbatim>\<open>value or ''\<close>.\<close>

definition or_empty :: "string option \<Rightarrow> string" where
  "or_empty v = (case v of None \<Rightarrow> [] | Some s \<Rightarrow> s)"

text \<open>\<^verbatim>\<open>split_csv\<close>: \<^verbatim>\<open>[s.strip() for s in (value or '').split(',') if s.strip()]\<close>.\<close>

definition split_csv :: "string option \<Rightarrow> string list" where
  "split_csv v = map strip (filter (\<lambda>s. strip s \<noteq> []) (split CHR '','' (or_empty v)))"

text \<open>\<^verbatim>\<open>User.query.get_or_404(user_id)\<close>.\<close>

definition get_or_404 :: "database \<Rightarrow> nat \<Rightarrow> error + User" where
  "get_or_404 db uid =
     (case find (\<lambda>u. user_id u = uid) (users db) of None \<Rightarrow> Inl NotFound | Some u \<Rightarrow> Inr u)"

subsection \<open>The recommendation route (\<^verbatim>\<open>recommend\<close> of \<^verbatim>\<open>app.py\<close>)\<close>

text \<open>
  \<^verbatim>\<open>user_skills\<close>: the lowercased names of the user's \<^verbatim>\<open>UserSkill\<close> rows that have a name, or,
  when that set is empty and \<^verbatim>\<open>skills_text\<close> is a non-empty string, the lowercased items of
  \<^verbatim>\<open>skills_text\<close>.
\<close>

definition user_skill_set :: "User \<Rightarrow> string set" where
  "user_skill_set user =
     (let user_skills =
            (if skills user \<noteq> []
             then set (map lower (filter (\<lambda>n. n \<noteq> []) (List.map_filter us_name (skills user))))
             else {})
      in if user_skills = {} \<and> or_empty (skills_text user) \<noteq> []
         then set (map lower (split_csv (skills_text user)))
         else user_skills)"

definition interest_lower :: "User \<Rightarrow> string list" where
  "interest_lower user = map lower (split_csv (interests user))"

text \<open>The loop \<^verbatim>\<open>for it in interest_lower: if it in (career.title or '').lower(): score += 1.0\<close>.\<close>

fun interest_loop :: "string list \<Rightarrow> string \<Rightarrow> rat \<Rightarrow> rat" where
  "interest_loop [] t score = score"
| "interest_loop (it # its) t score =
     interest_loop its t (if sublist it (lower t) then fadd score 1 else score)"

text \<open>\<^verbatim>\<open>reqs = [req.skill.name.lower() for req in career.requirements
  if req.skill and req.skill.name]\<close>.\<close>

definition career_reqs :: "Career \<Rightarrow> string list" where
  "career_reqs career =
     map (\<lambda>sk. lower (skill_name sk))
       (filter (\<lambda>sk. skill_name sk \<noteq> []) (List.map_filter req_skill (requirements career)))"

definition overlap_of :: "string set \<Rightarrow> Career \<Rightarrow> nat" where
  "overlap_of user_skills career = card (set (career_reqs career) \<inter> user_skills)"

text \<open>The score a career has when the loop body reaches its \<^verbatim>\<open>if\<close>.\<close>

definition career_score :: "string list \<Rightarrow> string set \<Rightarrow> Career \<Rightarrow> rat" where
  "career_score il user_skills career =
     (let score = interest_loop il (career_title career) 0;
          overlap = overlap_of user_skills career
      in fadd score (fmul (float_of_int (int overlap)) f08))"

type_synonym candidate = "Career \<times> string list \<times> rat"

definition cand_career :: "candidate \<Rightarrow> Career" where
  "cand_career x = fst x"

definition cand_reqs :: "candidate \<Rightarrow> string list" where
  "cand_reqs x = fst (snd x)"

definition cand_score :: "candidate \<Rightarrow> rat" where
  "cand_score x = snd (snd x)"

text \<open>The loop \<^verbatim>\<open>for career in Career.query.all()\<close>, with \<open>candidates\<close> the list built so far.\<close>

fun career_loop :: "string list \<Rightarrow> string set \<Rightarrow> Career list \<Rightarrow> candidate list \<Rightarrow> candidate list" where
  "career_loop il us [] candidates = candidates"
| "career_loop il us (career # rest) candidates =
     (let score = career_score il us career;
          overlap = overlap_of us career
      in career_loop il us rest
           (if score > 0 \<or> overlap > 0
            then candidates @ [(career, career_reqs career, score)]
            else candidates))"

text \<open>The fallback \<^verbatim>\<open>[(c, [req.skill.name for req in c.requirements if req.skill], 0)
  for c in Career.query.limit(5).all()]\<close>.\<close>

definition fallback_candidates :: "database \<Rightarrow> candidate list" where
  "fallback_candidates db =
     map (\<lambda>c. (c, map skill_name (List.map_filter req_skill (requirements c)), 0))
       (take 5 (careers db))"

text \<open>The candidates before the sort.\<close>

definition collect_candidates :: "database \<Rightarrow> User \<Rightarrow> candidate list" where
  "collect_candidates db user =
     (let candidates = career_loop (interest_lower user) (user_skill_set user) (careers db) []
      in if candidates = [] then fallback_candidates db else candidates)"

text \<open>
  \<^verbatim>\<open>xs.sort(key=k, reverse=True)\<close>: CPython reverses the list, sorts it with its stable sort
  and reverses the result, so that equal keys keep their order.
\<close>

definition sort_reverse :: "('a \<Rightarrow> 'k::linorder) \<Rightarrow> 'a list \<Rightarrow> 'a list" where
  "sort_reverse k xs = rev (sort_key k (rev xs))"

definition sorted_candidates :: "database \<Rightarrow> User \<Rightarrow> candidate list" where
  "sorted_candidates db user = sort_reverse cand_score (collect_candidates db user)"

text \<open>What the route hands to the template.\<close>

record recommend_context =
  ctx_recs :: "rec list"
  ctx_gaps :: "string \<rightharpoonup> string list"
  ctx_roadmaps :: "string \<rightharpoonup> phase list"

text \<open>\<^verbatim>\<open>missing = [r for r in required_skills if r.lower() not in user_skills]\<close>.\<close>

definition missing_of :: "string set \<Rightarrow> string list \<Rightarrow> string list" where
  "missing_of user_skills required_skills =
     filter (\<lambda>r. lower r \<notin> user_skills) required_skills"

text \<open>The loop \<^verbatim>\<open>for career, reqs, _ in candidates\<close> that fills \<^verbatim>\<open>recs\<close>, \<^verbatim>\<open>gaps\<close> and
  \<^verbatim>\<open>roadmaps\<close>.\<close>

fun render_loop :: "string set \<Rightarrow> candidate list \<Rightarrow> recommend_context \<Rightarrow> recommend_context" where
  "render_loop us [] ctx = ctx"
| "render_loop us ((career, reqs, score) # rest) ctx =
     (let required_skills = reqs;
          missing = missing_of us required_skills
      in render_loop us rest
           \<lparr>ctx_recs = ctx_recs ctx @ [\<lparr>rec_career = career_title career,
                                         rec_skills = required_skills\<rparr>],
            ctx_gaps = (ctx_gaps ctx)(career_title career \<mapsto> missing),
            ctx_roadmaps = (ctx_roadmaps ctx)(career_title career \<mapsto>
                build_roadmap (career_title career) required_skills missing)\<rparr>)"

definition recommend :: "database \<Rightarrow> nat \<Rightarrow> error + recommend_context" where
  "recommend db uid =
     (case get_or_404 db uid of
        Inl e \<Rightarrow> Inl e
      | Inr user \<Rightarrow>
          Inr (render_loop (user_skill_set user) (sorted_candidates db user)
                 \<lparr>ctx_recs = [], ctx_gaps = Map.empty, ctx_roadmaps = Map.empty\<rparr>))"

subsection \<open>Saving a plan (\<^verbatim>\<open>save_plan\<close> of \<^verbatim>\<open>app.py\<close>)\<close>

text \<open>The request: the form field \<^verbatim>\<open>career\<close>, the \<^verbatim>\<open>career\<close> entry of a JSON body (\<open>None\<close>
  when there is no such body or entry) and the repeated form field \<^verbatim>\<open>missing\<close>.\<close>

record save_plan_request =
  form_career :: "string option"
  json_career :: "string option"
  form_missing :: "string list"

record save_plan_response =
  message :: string
  saved_plan_id :: nat

text \<open>\<^verbatim>\<open>a or b\<close> on optional strings: \<^verbatim>\<open>None\<close> and the empty string are false.\<close>

definition py_or :: "string option \<Rightarrow> string option \<Rightarrow> string option" where
  "py_or a b = (if or_empty a \<noteq> [] then a else b)"

text \<open>The key an autoincrement column gives a new row.\<close>

definition next_id :: "nat list \<Rightarrow> nat" where
  "next_id ids = Suc (fold max ids 0)"

text \<open>
  \<^verbatim>\<open>db.session.add(PlanStep(...)); db.session.commit()\<close>. The only constraint of the table
  \<^verbatim>\<open>plan_steps\<close> an insert can violate is \<^verbatim>\<open>plan_id\<close> being \<^verbatim>\<open>nullable=False\<close>; a violation
  raises \<^verbatim>\<open>IntegrityError\<close> and leaves the table as it was.
\<close>

definition add_plan_step :: "PlanStep \<Rightarrow> database \<Rightarrow> error + database" where
  "add_plan_step st db =
     (if step_plan_id st = None then Inl IntegrityError
      else Inr (db\<lparr>plan_steps := plan_steps db @ [st]\<rparr>))"

text \<open>The inner loop \<^verbatim>\<open>for step in ph['steps']\<close>: \<^verbatim>\<open>order\<close> is incremented after a commit and
  left alone when the \<^verbatim>\<open>except IntegrityError\<close> branch rolls back.\<close>

fun step_loop :: "nat \<Rightarrow> string \<Rightarrow> string list \<Rightarrow> int \<times> database \<Rightarrow> int \<times> database" where
  "step_loop pid ph_title [] (order, db) = (order, db)"
| "step_loop pid ph_title (step # rest) (order, db) =
     (case add_plan_step \<lparr>step_plan_id = Some pid, step_title = ph_title @ '': '' @ step,
                          sort_order = order\<rparr> db of
        Inr db' \<Rightarrow> step_loop pid ph_title rest (order + 1, db')
      | Inl e \<Rightarrow> step_loop pid ph_title rest (order, db))"

text \<open>The outer loop \<^verbatim>\<open>for ph in phases\<close>.\<close>

fun phase_loop :: "nat \<Rightarrow> phase list \<Rightarrow> int \<times> database \<Rightarrow> int \<times> database" where
  "phase_loop pid [] s = s"
| "phase_loop pid (ph # phs) s = phase_loop pid phs (step_loop pid (title ph) (steps ph) s)"

text \<open>\<^verbatim>\<open>Career.query.filter(Career.title == career_title).first()\<close>, and the insert of a new
  career when there is none.\<close>

definition find_or_create_career :: "database \<Rightarrow> string \<Rightarrow> Career \<times> database" where
  "find_or_create_career db t =
     (case find (\<lambda>c. career_title c = t) (careers db) of
        Some c \<Rightarrow> (c, db)
      | None \<Rightarrow>
          (let c = \<lparr>career_id = next_id (map career_id (careers db)), career_title = t,
                    requirements = [], resources = []\<rparr>
           in (c, db\<lparr>careers := careers db @ [c]\<rparr>)))"

text \<open>
  \<^verbatim>\<open>save_plan\<close>. The result is the response and the database after the request. A request
  without \<^verbatim>\<open>missing\<close> fields reads \<^verbatim>\<open>user.user_skills\<close>, an attribute the class \<^verbatim>\<open>User\<close> of
  \<^verbatim>\<open>models.py\<close> does not have (its relationship is \<^verbatim>\<open>skills\<close>): the \<^verbatim>\<open>AttributeError\<close> is
  raised after the plan has been committed. The inserts of the career and of the plan cannot
  violate a constraint (their required columns are given), so their \<^verbatim>\<open>except\<close> branches are
  not reached.
\<close>

definition save_plan :: "database \<Rightarrow> nat \<Rightarrow> save_plan_request \<Rightarrow> (error + save_plan_response) \<times> database" where
  "save_plan db uid req =
     (case get_or_404 db uid of
        Inl e \<Rightarrow> (Inl e, db)
      | Inr user \<Rightarrow>
          (let career_title_arg = or_empty (py_or (form_career req) (json_career req))
           in if career_title_arg = [] then (Inl (BadRequest ''Career required''), db)
              else
                (let (career, db1) = find_or_create_career db career_title_arg;
                     plan = \<lparr>plan_id = next_id (map plan_id (plans db1)),
                             plan_user_id = user_id user,
                             plan_career_id = Some (career_id career),
                             plan_title = ''Roadmap for '' @ career_title career\<rparr>;
                     db2 = db1\<lparr>plans := plans db1 @ [plan]\<rparr>;
                     missing = form_missing req
                 in if missing = [] then (Inl (AttributeError ''user_skills''), db2)
                    else
                      (let required = map (\<lambda>sk. lower (skill_name sk))
                                        (List.map_filter req_skill (requirements career));
                           phases = build_roadmap (career_title career) required missing;
                           (order, db3) = phase_loop (plan_id plan) phases (1, db2);
                           db4 = (case add_plan_step
                                         \<lparr>step_plan_id = Some (plan_id plan),
                                          step_title = ''Build a small project to demonstrate skills'',
                                          sort_order = order\<rparr> db3 of
                                    Inr d \<Rightarrow> d
                                  | Inl e \<Rightarrow> db3)
                       in (Inr \<lparr>message = ''Plan saved for '' @ career_title career,
                                saved_plan_id = plan_id plan\<rparr>, db4)))))"

subsection \<open>Resource lookup (\<^verbatim>\<open>resources\<close> of \<^verbatim>\<open>app.py\<close>)\<close>

text \<open>
  SQLite's \<^verbatim>\<open>LIKE\<close>: in the pattern \<^verbatim>\<open>%\<close> stands for any run of characters, \<^verbatim>\<open>_\<close> for any one
  character, every other character for itself without regard to ASCII case.
\<close>

fun sql_like :: "string \<Rightarrow> string \<Rightarrow> bool" where
  "sql_like [] t = (t = [])"
| "sql_like (p # ps) [] = (p = CHR ''%'' \<and> sql_like ps [])"
| "sql_like (p # ps) (c # cs) =
     (if p = CHR ''%'' then sql_like ps (c # cs) \<or> sql_like (p # ps) cs
      else (p = CHR ''_'' \<or> lower_char p = lower_char c) \<and> sql_like ps cs)"

text \<open>\<^verbatim>\<open>column.ilike(pattern)\<close>, which SQLAlchemy renders as
  \<^verbatim>\<open>lower(column) LIKE lower(pattern)\<close>.\<close>

definition ilike :: "string \<Rightarrow> string \<Rightarrow> bool" where
  "ilike column pattern = sql_like (lower pattern) (lower column)"

text \<open>The JSON bodies of the route: \<^verbatim>\<open>{'career': ..., 'resources': [...]}\<close> and
  \<^verbatim>\<open>{'resources': [...]}\<close>, a resource being its title and its url.\<close>

datatype resources_json =
  CareerResources string "(string \<times> string option) list"
| ResourceList "(string \<times> string option) list"

text \<open>
  \<^verbatim>\<open>resources\<close>, from the query argument \<^verbatim>\<open>career\<close> (\<open>None\<close> when absent). For a matched career
  the route collects pairs in a Python set, whose listing order is not fixed: the model
  lists each pair once, in the order of first insertion. The loop over the requirements
  reads \<^verbatim>\<open>req.skill.resources\<close>, an attribute the class \<^verbatim>\<open>Skill\<close> does not have.
\<close>

definition resources_route :: "database \<Rightarrow> string option \<Rightarrow> error + resources_json" where
  "resources_route db arg =
     (let career_query = strip (or_empty arg)
      in if career_query \<noteq> []
         then (case find (\<lambda>c. ilike (career_title c) (''%'' @ career_query @ ''%'')) (careers db) of
                 Some career \<Rightarrow>
                   if requirements career \<noteq> [] then Inl (AttributeError ''resources'')
                   else Inr (CareerResources (career_title career)
                          (remdups (map (\<lambda>r. (res_title r, res_url r)) (resources career))))
               | None \<Rightarrow> Inr (CareerResources career_query []))
         else Inr (ResourceList (map (\<lambda>r. (res_title r, res_url r)) (take 20 (resource_rows db)))))"

subsection \<open>\<^verbatim>\<open>build_roadmap\<close> run statement by statement\<close>

text \<open>
  A second reading of \<^verbatim>\<open>build_roadmap\<close> of \<^verbatim>\<open>app.py\<close>, in which termination and exceptions are
  not built in: the body is run one statement at a time, with a bound on the number of
  statements, on arguments whose Python type is checked only where the body uses them. An
  argument is a list, a string or \<^verbatim>\<open>None\<close>; an item of a list is a string or \<^verbatim>\<open>None\<close>.
\<close>

datatype pyitem = Str string | NoneItem

datatype pyarg = ListOf "pyitem list" | StrArg string | NoneArg

text \<open>The truth value \<^verbatim>\<open>if x:\<close> tests.\<close>

definition truthy :: "pyarg \<Rightarrow> bool" where
  "truthy x = (case x of ListOf xs \<Rightarrow> xs \<noteq> [] | StrArg s \<Rightarrow> s \<noteq> [] | NoneArg \<Rightarrow> False)"

text \<open>The items \<^verbatim>\<open>for s in x\<close> visits: those of a list, the characters of a string;
  \<^verbatim>\<open>None\<close> is not iterable.\<close>

definition py_iter :: "pyarg \<Rightarrow> error + pyitem list" where
  "py_iter x =
     (case x of
        ListOf xs \<Rightarrow> Inr xs
      | StrArg s \<Rightarrow> Inr (map (\<lambda>c. Str [c]) s)
      | NoneArg \<Rightarrow> Inl (TypeError ''NoneType''))"

text \<open>\<^verbatim>\<open>s.lower()\<close>: \<^verbatim>\<open>None\<close> has no such attribute.\<close>

definition py_lower :: "pyitem \<Rightarrow> error + string" where
  "py_lower s = (case s of Str x \<Rightarrow> Inr (lower x) | NoneItem \<Rightarrow> Inl (AttributeError ''lower''))"

text \<open>The text an f-string puts for \<^verbatim>\<open>{s}\<close>.\<close>

definition py_format :: "pyitem \<Rightarrow> string" where
  "py_format s = (case s of Str x \<Rightarrow> x | NoneItem \<Rightarrow> ''None'')"

text \<open>The body of the first loop, reading the global table \<open>tbl\<close>.\<close>

definition foundation_line :: "(string \<times> string list) list \<Rightarrow> pyitem \<Rightarrow> error + string" where
  "foundation_line tbl s =
     (case py_lower s of
        Inl e \<Rightarrow> Inl e
      | Inr key \<Rightarrow>
          (let res = join ('' '' @ bullet @ '' '') (take 2 (dict_get (map_of tbl) key []));
               res = (if res = [] then ''Pick a beginner resource'' else res)
           in Inr (''Learn the basics of '' @ py_format s @ '' (2'' @ en_dash
                     @ ''3 weeks). Suggested: '' @ res @ ''.'')))"

text \<open>The element of the list comprehension.\<close>

definition core_line :: "pyitem \<Rightarrow> string" where
  "core_line s =
     ''Do 3'' @ en_dash @ ''5 medium practice sets for '' @ py_format s
       @ ''. Summarize notes in a wiki/notion.''"

text \<open>Where the run stands: before \<^verbatim>\<open>if missing_skills:\<close>, inside the first loop, before the
  Core Practice statement, inside its comprehension, before each of the three last
  \<^verbatim>\<open>phases.append\<close>, and at \<^verbatim>\<open>return phases\<close>.\<close>

datatype pc =
  AtIfMissing | InFoundationsLoop | AtCorePractice | InCoreLoop
  | AtProjects | AtPortfolio | AtApply | AtReturn

text \<open>The locals \<^verbatim>\<open>phases\<close> and \<^verbatim>\<open>steps\<close>, the list the comprehension builds, the items the
  running loop has not visited yet, and the module's global \<^verbatim>\<open>SKILL_RESOURCES\<close>.\<close>

record frame =
  pc :: pc
  iterator :: "pyitem list"
  steps_var :: "string list"
  core_steps_var :: "string list"
  phases_var :: "phase list"
  table :: "(string \<times> string list) list"

text \<open>The frame once \<^verbatim>\<open>phases = []\<close> has run.\<close>

definition initial_frame :: frame where
  "initial_frame = \<lparr>pc = AtIfMissing, iterator = [], steps_var = [], core_steps_var = [],
     phases_var = [], table = SKILL_RESOURCES_items\<rparr>"

text \<open>One statement (or one turn of a loop). An exception ends the run.\<close>

definition step :: "pyarg \<Rightarrow> pyarg \<Rightarrow> frame \<Rightarrow> error + frame" where
  "step required_skills missing_skills f =
     (case pc f of
        AtIfMissing \<Rightarrow>
          if truthy missing_skills
          then (case py_iter missing_skills of
                  Inl e \<Rightarrow> Inl e
                | Inr items \<Rightarrow> Inr (f\<lparr>pc := InFoundationsLoop, iterator := items,
                                        steps_var := []\<rparr>))
          else Inr (f\<lparr>pc := AtCorePractice\<rparr>)
      | InFoundationsLoop \<Rightarrow>
          (case iterator f of
             [] \<Rightarrow> Inr (f\<lparr>pc := AtCorePractice,
                           phases_var := phases_var f
                             @ [\<lparr>title = ''Foundations'', steps = steps_var f\<rparr>]\<rparr>)
           | s # rest \<Rightarrow>
               (case foundation_line (table f) s of
                  Inl e \<Rightarrow> Inl e
                | Inr line \<Rightarrow> Inr (f\<lparr>iterator := rest, steps_var := steps_var f @ [line]\<rparr>)))
      | AtCorePractice \<Rightarrow>
          (case py_iter required_skills of
             Inl e \<Rightarrow> Inl e
           | Inr items \<Rightarrow> Inr (f\<lparr>pc := InCoreLoop, iterator := items, core_steps_var := []\<rparr>))
      | InCoreLoop \<Rightarrow>
          (case iterator f of
             [] \<Rightarrow> Inr (f\<lparr>pc := AtProjects,
                           phases_var := phases_var f
                             @ [\<lparr>title = ''Core Practice'', steps = core_steps_var f\<rparr>]\<rparr>)
           | s # rest \<Rightarrow> Inr (f\<lparr>iterator := rest,
                                  core_steps_var := core_steps_var f @ [core_line s]\<rparr>))
      | AtProjects \<Rightarrow> Inr (f\<lparr>pc := AtPortfolio, phases_var := phases_var f @ [projects_phase]\<rparr>)
      | AtPortfolio \<Rightarrow> Inr (f\<lparr>pc := AtApply, phases_var := phases_var f @ [portfolio_phase]\<rparr>)
      | AtApply \<Rightarrow> Inr (f\<lparr>pc := AtReturn, phases_var := phases_var f @ [apply_phase]\<rparr>)
      | AtReturn \<Rightarrow> Inr f)"

text \<open>At most \<open>fuel\<close> statements: \<open>None\<close> when the run has not reached \<^verbatim>\<open>return\<close> by then,
  otherwise the exception raised or the frame at \<^verbatim>\<open>return\<close>.\<close>

fun run :: "nat \<Rightarrow> pyarg \<Rightarrow> pyarg \<Rightarrow> frame \<Rightarrow> (error + frame) option" where
  "run 0 required_skills missing_skills f = None"
| "run (Suc fuel) required_skills missing_skills f =
     (if pc f = AtReturn then Some (Inr f)
      else (case step required_skills missing_skills f of
              Inl e \<Rightarrow> Some (Inl e)
            | Inr f' \<Rightarrow> run fuel required_skills missing_skills f'))"

text \<open>The call: the value returned, with the global table as the call leaves it.\<close>

definition build_roadmap_run ::
  "nat \<Rightarrow> pyarg \<Rightarrow> pyarg \<Rightarrow> pyarg \<Rightarrow> (error + phase list \<times> (string \<times> string list) list) option" where
  "build_roadmap_run fuel career_title_arg required_skills missing_skills =
     (case run fuel required_skills missing_skills initial_frame of
        None \<Rightarrow> None
      | Some (Inl e) \<Rightarrow> Some (Inl e)
      | Some (Inr f) \<Rightarrow> Some (Inr (phases_var f, table f)))"

subsection \<open>The scoring rule in the words of the specification\<close>

text \<open>
  The interests of a user are the items of the comma-separated text \<^verbatim>\<open>interests\<close>. The
  effective skills of a user are the names of its \<^verbatim>\<open>UserSkill\<close> rows or, when no row has a
  name, the items of the text \<^verbatim>\<open>skills_text\<close>. The required skills of a career are the names
  of the skills its requirement rows link to.
\<close>

definition user_interests :: "User \<Rightarrow> string list" where
  "user_interests user = split_csv (interests user)"

definition effective_skills :: "User \<Rightarrow> string list" where
  "effective_skills user =
     (let named = filter (\<lambda>n. n \<noteq> []) (List.map_filter us_name (skills user))
      in if named \<noteq> [] then named else split_csv (skills_text user))"

definition required_skills_of :: "Career \<Rightarrow> string list" where
  "required_skills_of career = map skill_name (List.map_filter req_skill (requirements career))"

text \<open>The number of interests that are, without regard to case, a substring of the title.\<close>

definition spec_interest_count :: "User \<Rightarrow> Career \<Rightarrow> nat" where
  "spec_interest_count user career =
     length (filter (\<lambda>i. sublist (lower i) (lower (career_title career))) (user_interests user))"

text \<open>The size of the intersection of the required skills and the user's skills, both
  case-folded.\<close>

definition spec_overlap :: "User \<Rightarrow> Career \<Rightarrow> nat" where
  "spec_overlap user career =
     card (lower ` set (required_skills_of career) \<inter> lower ` set (effective_skills user))"

text \<open>\<^verbatim>\<open>count * 1.0 + overlap * 0.8\<close>, in Python's arithmetic.\<close>

definition spec_score :: "User \<Rightarrow> Career \<Rightarrow> rat" where
  "spec_score user career =
     fadd (fmul (float_of_int (int (spec_interest_count user career))) 1)
          (fmul (float_of_int (int (spec_overlap user career))) f08)"

subsection \<open>Plan steps in the words of the specification\<close>

text \<open>The step titles of a roadmap, flattened in the order of the phases and of the steps of
  each phase, each prefixed with the title of its phase.\<close>

definition flattened_titles :: "phase list \<Rightarrow> string list" where
  "flattened_titles phases =
     concat (map (\<lambda>ph. map (\<lambda>s. title ph @ '': '' @ s) (steps ph)) phases)"

text \<open>The rows of a plan whose \<^verbatim>\<open>sort_order\<close> is the position of each title, counted from
  \<open>order\<close>.\<close>

fun numbered_rows :: "nat \<Rightarrow> int \<Rightarrow> string list \<Rightarrow> PlanStep list" where
  "numbered_rows pid order [] = []"
| "numbered_rows pid order (t # ts) =
     \<lparr>step_plan_id = Some pid, step_title = t, sort_order = order\<rparr>
       # numbered_rows pid (order + 1) ts"

subsection \<open>Example data\<close>

text \<open>
  The example of the specification: a user with the interest \<^verbatim>\<open>programming\<close> and the skill
  \<^verbatim>\<open>python\<close>, and a catalog in which Software Engineer requires python, data-structures and
  algorithms. A second user also has the interest \<^verbatim>\<open>data\<close>; a third has nothing to match.
\<close>

definition requirement_of :: "string \<Rightarrow> CareerSkillRequirement" where
  "requirement_of n = \<lparr>req_skill = Some \<lparr>skill_name = n\<rparr>\<rparr>"

definition software_engineer :: Career where
  "software_engineer = \<lparr>career_id = 1, career_title = ''Software Engineer'',
     requirements = map requirement_of [''python'', ''data-structures'', ''algorithms''],
     resources = []\<rparr>"

definition data_analyst :: Career where
  "data_analyst = \<lparr>career_id = 2, career_title = ''Data Analyst'',
     requirements = map requirement_of [''python'', ''sql'', ''statistics''],
     resources = []\<rparr>"

definition backend_developer :: Career where
  "backend_developer = \<lparr>career_id = 3, career_title = ''Back-end Developer'',
     requirements = map requirement_of [''Python'', ''sql''],
     resources = []\<rparr>"

definition example_user :: User where
  "example_user = \<lparr>user_id = 1, interests = Some ''programming'',
     skills_text = Some ''python'', skills = []\<rparr>"

definition example_user2 :: User where
  "example_user2 = \<lparr>user_id = 2, interests = Some ''Programming, data'',
     skills_text = Some ''Python'', skills = []\<rparr>"

definition example_user3 :: User where
  "example_user3 = \<lparr>user_id = 3, interests = None, skills_text = None, skills = []\<rparr>"

definition example_db :: database where
  "example_db = \<lparr>users = [example_user, example_user2, example_user3],
     careers = [software_engineer, data_analyst, backend_developer],
     resource_rows = [\<lparr>res_title = ''Official Python Tutorial'', res_url = None\<rparr>],
     plans = [], plan_steps = []\<rparr>"

text \<open>A catalog in which two careers have the same title.\<close>

definition duplicate_title_db :: database where
  "duplicate_title_db = \<lparr>users = [example_user2],
     careers = [\<lparr>career_id = 1, career_title = ''Data Analyst'',
                  requirements = [requirement_of ''python''], resources = []\<rparr>,
                \<lparr>career_id = 2, career_title = ''Data Analyst'',
                  requirements = [requirement_of ''sql''], resources = []\<rparr>],
     resource_rows = [], plans = [], plan_steps = []\<rparr>"

text \<open>A catalog in which a career requires a skill whose name is the empty string.\<close>

definition nameless_skill_db :: database where
  "nameless_skill_db = \<lparr>users = [example_user2],
     careers = [\<lparr>career_id = 1, career_title = ''Data Analyst'',
                  requirements = [requirement_of ''sql'', requirement_of []], resources = []\<rparr>],
     resource_rows = [], plans = [], plan_steps = []\<rparr>"

section \<open>Properties of the roadmap generator\<close>

lemma foundation_loop_append: "foundation_loop ms acc = acc @ map foundation_step ms"
  by (induction ms arbitrary: acc) simp_all

lemma SKILL_RESOURCES_joined:
  "SKILL_RESOURCES k = Some rs \<Longrightarrow> join sep (take 2 rs) \<noteq> []"
  by (auto simp: SKILL_RESOURCES_def SKILL_RESOURCES_items_def numeral_2_eq_2 split: if_splits)

lemma suggested_lookup:
  "suggested s =
     (case SKILL_RESOURCES (lower s) of
        None \<Rightarrow> ''Pick a beginner resource''
      | Some rs \<Rightarrow> join ('' '' @ bullet @ '' '') (take 2 rs))"
  by (auto simp: suggested_def dict_get_def Let_def SKILL_RESOURCES_joined split: option.splits)

lemma roadmap_phases_eq:
  "roadmap_phases l t r m =
     (if m = [] then [] else [\<lparr>title = ''Foundations'', steps = map foundation_step m\<rparr>])
       @ [\<lparr>title = ''Core Practice'', steps = map core_step r\<rparr>,
          projects_phase, portfolio_phase, l]"
  by (simp add: roadmap_phases_def foundation_loop_append)

lemma fixed_titles [simp]:
  "title projects_phase = ''Projects''" "title portfolio_phase = ''Portfolio''"
  "title apply_phase = ''Apply & Iterate''" "title apply_phase_demo = ''Apply & Iterate''"
  by (simp_all add: projects_phase_def portfolio_phase_def apply_phase_def apply_phase_demo_def)

text \<open>
  C4. \<^verbatim>\<open>build_roadmap\<close> (in \<^verbatim>\<open>app.py\<close> and in \<^verbatim>\<open>app_demo.py\<close>) returns 4 phases when the list of
  missing skills is empty and 5 otherwise, and its result has exactly one phase titled
  Core Practice, with as many steps as the list of required skills has entries.
\<close>

theorem build_roadmap_phase_count:
  "length (build_roadmap t r m) = (if m = [] then 4 else 5) \<and>
   map (\<lambda>p. length (steps p)) (filter (\<lambda>p. title p = ''Core Practice'') (build_roadmap t r m))
     = [length r] \<and>
   length (build_roadmap_demo t r m) = (if m = [] then 4 else 5) \<and>
   map (\<lambda>p. length (steps p)) (filter (\<lambda>p. title p = ''Core Practice'') (build_roadmap_demo t r m))
     = [length r]"
  by (simp add: build_roadmap_def build_roadmap_demo_def roadmap_phases_eq)

text \<open>
  C7. The result of \<^verbatim>\<open>build_roadmap\<close> has a phase titled Foundations exactly when the list of
  missing skills is not empty; that phase has one step per missing skill, in order, and the
  step of a skill ends with the first two resource names the table \<^verbatim>\<open>SKILL_RESOURCES\<close> holds
  under the lowercased skill (joined by a bullet), or with the text
  \<^verbatim>\<open>Pick a beginner resource\<close> when the table has no entry for it.
\<close>

theorem build_roadmap_foundations:
  "filter (\<lambda>p. title p = ''Foundations'') (build_roadmap t r m) =
     (if m = [] then []
      else [\<lparr>title = ''Foundations'',
             steps = map (\<lambda>s. ''Learn the basics of '' @ s @ '' (2'' @ en_dash
                        @ ''3 weeks). Suggested: ''
                        @ (case SKILL_RESOURCES (lower s) of
                             None \<Rightarrow> ''Pick a beginner resource''
                           | Some rs \<Rightarrow> join ('' '' @ bullet @ '' '') (take 2 rs))
                        @ ''.'') m\<rparr>]) \<and>
   filter (\<lambda>p. title p = ''Foundations'') (build_roadmap_demo t r m) =
     filter (\<lambda>p. title p = ''Foundations'') (build_roadmap t r m)"
  by (simp add: build_roadmap_def build_roadmap_demo_def roadmap_phases_eq
      foundation_step_def suggested_lookup)

section \<open>Properties of the standalone recommender\<close>

lemma key_loop_append:
  "key_loop kvs key recs =
     recs @ map snd (filter (\<lambda>(k, v). sublist k key \<or> sublist key k) kvs)"
proof (induction kvs arbitrary: recs)
  case Nil
  show ?case by simp
next
  case (Cons kv kvs)
  obtain k v where kv: "kv = (k, v)" by (cases kv)
  show ?case by (simp add: kv Cons.IH)
qed

lemma interests_loop_append:
  "interests_loop its recs =
     recs @ concat (map (\<lambda>it. map snd (filter (\<lambda>(k, v). sublist k (strip (lower it))
                                                  \<or> sublist (strip (lower it)) k) CAREER_MAP)) its)"
  by (induction its arbitrary: recs) (simp_all add: key_loop_append)

lemma dedupe_loop_Nil_iff: "dedupe_loop rs seen out = [] \<longleftrightarrow> out = [] \<and> rec_career ` set rs \<subseteq> seen"
  by (induction rs arbitrary: seen out) auto

lemma get_recommendations_fallback:
  "get_recommendations its sks =
     (if interests_loop its [] = []
      then [\<lparr>rec_career = ''General Counseling'',
              rec_skills = [''communication'', ''career-planning'']\<rparr>]
      else dedupe_loop (interests_loop its []) {} [])"
  by (auto simp: get_recommendations_def Let_def dedupe_loop_Nil_iff)

text \<open>
  C10 (amended). \<^verbatim>\<open>get_recommendations\<close> never returns the empty list, and when no interest,
  lowercased and with surrounding whitespace stripped, contains a key of \<^verbatim>\<open>CAREER_MAP\<close> or is
  contained in one, the result is the single entry General Counseling with the skills
  communication and career-planning.
\<close>

theorem get_recommendations_nonempty:
  "get_recommendations its sks \<noteq> [] \<and>
   ((\<forall>it \<in> set its. \<forall>k \<in> fst ` set CAREER_MAP.
        \<not> (sublist k (strip (lower it)) \<or> sublist (strip (lower it)) k)) \<longrightarrow>
    get_recommendations its sks =
      [\<lparr>rec_career = ''General Counseling'',
        rec_skills = [''communication'', ''career-planning'']\<rparr>])"
proof -
  have nonempty: "get_recommendations its sks \<noteq> []"
    by (simp add: get_recommendations_def Let_def)
  have fallback: "get_recommendations its sks =
      [\<lparr>rec_career = ''General Counseling'',
        rec_skills = [''communication'', ''career-planning'']\<rparr>]"
    if no_match: "\<forall>it \<in> set its. \<forall>k \<in> fst ` set CAREER_MAP.
        \<not> (sublist k (strip (lower it)) \<or> sublist (strip (lower it)) k)"
  proof -
    have "filter (\<lambda>(k, v). sublist k (strip (lower it)) \<or> sublist (strip (lower it)) k)
            CAREER_MAP = []" if "it \<in> set its" for it
      using no_match that by (force simp: filter_empty_conv)
    then have "interests_loop its [] = []"
      by (simp add: interests_loop_append)
    then show ?thesis
      by (simp add: get_recommendations_fallback)
  qed
  from nonempty fallback show ?thesis by blast
qed

theorem get_recommendations_nonempty_witness:
  "get_recommendations [''x''] [] \<noteq> [] \<and>
   get_recommendations [''x''] [] =
      [\<lparr>rec_career = ''General Counseling'',
        rec_skills = [''communication'', ''career-planning'']\<rparr>]"
proof -
  have "\<forall>it \<in> set [''x'']. \<forall>k \<in> fst ` set CAREER_MAP.
        \<not> (sublist k (strip (lower it)) \<or> sublist (strip (lower it)) k)"
    by code_simp
  with get_recommendations_nonempty [of "[''x'']" "[]"] show ?thesis by blast
qed

text \<open>The claim as stated compares the lowercased interest itself: the interest
  \<^verbatim>\<open>' da '\<close> neither contains a key nor is contained in one, and is recommended Data Analyst.\<close>

theorem get_recommendations_counterexample:
  "list_all (\<lambda>k. \<not> (sublist k (lower '' da '') \<or> sublist (lower '' da '') k))
     (map fst CAREER_MAP) \<and>
   get_recommendations ['' da ''] [] =
     [\<lparr>rec_career = ''Data Analyst'', rec_skills = [''python'', ''sql'', ''statistics'']\<rparr>]"
  by code_simp

section \<open>Python float arithmetic on small integers\<close>

lemma round_half_even_of_int [simp]: "round_half_even (of_int n) = n"
  by (simp add: round_half_even_def)

lemma powi_nonneg: "0 \<le> d \<Longrightarrow> (2::rat) powi d = of_int (2 ^ nat d)"
  by (simp add: power_int_def)

lemma powi_nonpos: "d \<le> 0 \<Longrightarrow> (2::rat) powi d = inverse (2 ^ nat (- d))"
  by (cases "d = 0") (simp_all add: power_int_def power_one_over inverse_eq_divide)

lemma exp_less: "(2::int) ^ a \<le> m \<Longrightarrow> m < 2 ^ P \<Longrightarrow> a < P"
proof -
  assume "(2::int) ^ a \<le> m" "m < 2 ^ P"
  then have "(2::int) ^ a < 2 ^ P" by linarith
  then show "a < P" using power_less_imp_less_exp [of "2::int" a P] by simp
qed

lemma bitlen_one: "bitlen 1 = 1"
  by (simp add: bitlen_alt_def)

lemma float_exponent_of_nat:
  assumes "0 < n"
  shows "float_exponent (of_nat n) = bitlen (int n) - 1"
proof -
  have q: "quotient_of (of_nat n :: rat) = (int n, 1)"
    using quotient_of_int [of "int n"] by simp
  have "(2::int) ^ nat (bitlen (int n) - 1) \<le> int n"
    using bitlen_bounds [of "int n"] assms by simp
  moreover have "0 \<le> bitlen (int n) - 1"
    using assms bitlen_nonneg [of "int n"] bitlen_eq_zero_iff [of "int n"] by linarith
  ultimately have "(2::rat) powi (bitlen (int n) - 1) \<le> of_int (int n)"
    by (simp only: powi_nonneg of_int_le_iff)
  then show ?thesis
    by (simp add: float_exponent_def q bitlen_one)
qed

lemma fl_two_53_numeral: "fl 9007199254740992 = 9007199254740992"
  by code_simp

lemma fl_two_53: "fl (of_nat (2 ^ 53)) = of_nat (2 ^ 53)"
  using fl_two_53_numeral by simp

lemma fl_of_nat:
  assumes "n \<le> 2 ^ 53"
  shows "fl (of_nat n) = of_nat n"
proof (cases "n = 0 \<or> n = 2 ^ 53")
  case True
  then show ?thesis using fl_two_53 by (auto simp: fl_def)
next
  case False
  then have pos: "0 < n" and "n \<noteq> 2 ^ 53" by simp_all
  with assms have "n < 2 ^ 53" by linarith
  then have less: "int n < 2 ^ 53"
    by (metis of_nat_less_iff of_nat_numeral of_nat_power)
  define e where "e = bitlen (int n) - 1"
  have e: "float_exponent \<bar>of_nat n\<bar> = e"
    using float_exponent_of_nat [OF pos] by (simp add: e_def)
  have e_nonneg: "0 \<le> e"
    using pos bitlen_nonneg [of "int n"] bitlen_eq_zero_iff [of "int n"]
    unfolding e_def by linarith
  have lower_bound: "(2::int) ^ nat e \<le> int n"
    using bitlen_bounds [of "int n"] pos by (simp add: e_def)
  have "nat e < 53"
    using exp_less [OF lower_bound less] .
  then have le: "e - 52 \<le> 0" by linarith
  define k where "k = nat (- (e - 52))"
  have u: "(2::rat) powi (e - 52) = inverse (2 ^ k)"
    unfolding k_def by (rule powi_nonpos [OF le])
  have nz: "(of_nat n :: rat) \<noteq> 0" using pos by simp
  have "fl (of_nat n) = of_int (round_half_even (of_nat n / inverse (2 ^ k))) * inverse (2 ^ k)"
    unfolding fl_def Let_def e u using nz by simp
  also have "of_nat n / inverse ((2::rat) ^ k) = of_int (int n * 2 ^ k)"
    by (simp add: divide_inverse)
  also have "of_int (round_half_even (of_int (int n * 2 ^ k))) * inverse ((2::rat) ^ k) = of_nat n"
    by (simp only: round_half_even_of_int) simp
  finally show ?thesis .
qed

lemma fl_0 [simp]: "fl 0 = 0"
  by (simp add: fl_def)

section \<open>Properties of the recommendation route\<close>

lemma fadd_one:
  "m < 2 ^ 53 \<Longrightarrow> fadd (of_nat m) 1 = of_nat (Suc m)"
  using fl_of_nat [of "Suc m"] by (simp add: fadd_def add.commute)

lemma interest_loop_count:
  "m + length its \<le> 2 ^ 53 \<Longrightarrow>
   interest_loop its t (of_nat m) = of_nat (m + length (filter (\<lambda>it. sublist it (lower t)) its))"
proof (induction its arbitrary: m)
  case Nil
  show ?case by simp
next
  case (Cons it its)
  show ?case
  proof (cases "sublist it (lower t)")
    case True
    have "m < 2 ^ 53" using Cons.prems by simp
    then have "interest_loop (it # its) t (of_nat m) = interest_loop its t (of_nat (Suc m))"
      using True by (simp add: fadd_one)
    also have "\<dots> = of_nat (Suc m + length (filter (\<lambda>it. sublist it (lower t)) its))"
      using Cons.prems by (intro Cons.IH) simp
    finally show ?thesis using True by simp
  next
    case False
    then show ?thesis using Cons.prems Cons.IH [of m] by simp
  qed
qed

lemma lower_Nil_iff [simp]: "lower s = [] \<longleftrightarrow> s = []" "[] = lower s \<longleftrightarrow> s = []"
  by (auto simp: lower_def)

lemma split_csv_nonempty: "s \<in> set (split_csv v) \<Longrightarrow> s \<noteq> []"
  by (auto simp: split_csv_def)

lemma user_skill_set_effective: "user_skill_set user = lower ` set (effective_skills user)"
proof (cases "filter (\<lambda>n. n \<noteq> []) (List.map_filter us_name (skills user)) = []")
  case True
  then have "user_skill_set user =
      (if or_empty (skills_text user) \<noteq> [] then set (map lower (split_csv (skills_text user))) else {})"
    by (simp add: user_skill_set_def Let_def)
  moreover have "split_csv (skills_text user) = []" if "or_empty (skills_text user) = []"
    using that by (simp add: split_csv_def strip_def lstrip_def rstrip_def)
  ultimately show ?thesis using True
    by (simp add: effective_skills_def Let_def)
next
  case False
  then have "skills user \<noteq> []"
    by (auto simp: List.map_filter_def)
  moreover have "set (map lower (filter (\<lambda>n. n \<noteq> []) (List.map_filter us_name (skills user)))) \<noteq> {}"
    using False by (auto simp: filter_empty_conv)
  ultimately show ?thesis
    using False unfolding user_skill_set_def effective_skills_def Let_def
    by (simp only: if_True if_False simp_thms set_map)
qed

lemma empty_not_user_skill: "[] \<notin> user_skill_set user"
  by (auto simp: user_skill_set_effective effective_skills_def Let_def dest: split_csv_nonempty)

lemma overlap_of_spec: "overlap_of (user_skill_set user) career = spec_overlap user career"
proof -
  have "lower (skill_name sk) \<in> user_skill_set user \<Longrightarrow> skill_name sk \<noteq> []" for sk :: Skill
    using empty_not_user_skill [of user] by (cases "skill_name sk = []") (auto simp: lower_def)
  then have "set (career_reqs career) \<inter> user_skill_set user
      = lower ` set (required_skills_of career) \<inter> user_skill_set user"
    by (auto simp: career_reqs_def required_skills_of_def)
  then show ?thesis
    by (simp add: overlap_of_def spec_overlap_def user_skill_set_effective)
qed

lemma float_of_int_nat: "n \<le> 2 ^ 53 \<Longrightarrow> float_of_int (int n) = of_nat n"
  using fl_of_nat [of n] by (simp add: float_of_int_def)

lemma career_score_spec:
  assumes "length (user_interests user) \<le> 2 ^ 53"
  shows "career_score (interest_lower user) (user_skill_set user) career = spec_score user career"
proof -
  let ?n = "spec_interest_count user career"
  have len: "length (interest_lower user) \<le> 2 ^ 53"
    using assms by (simp add: interest_lower_def user_interests_def)
  have count: "length (filter (\<lambda>it. sublist it (lower (career_title career))) (interest_lower user)) = ?n"
    by (simp add: spec_interest_count_def interest_lower_def user_interests_def filter_map o_def)
  have "?n \<le> length (user_interests user)"
    by (simp add: spec_interest_count_def)
  with assms have n: "?n \<le> 2 ^ 53" by linarith
  have "interest_loop (interest_lower user) (career_title career) 0 = of_nat ?n"
    using interest_loop_count [of 0 "interest_lower user" "career_title career"] len count
    by simp
  moreover have "fmul (float_of_int (int ?n)) 1 = of_nat ?n"
    using n by (simp add: fmul_def float_of_int_nat fl_of_nat)
  ultimately show ?thesis
    by (simp add: career_score_def spec_score_def Let_def overlap_of_spec)
qed


lemma career_loop_append:
  "career_loop il us cs acc =
     acc @ map (\<lambda>c. (c, career_reqs c, career_score il us c))
             (filter (\<lambda>c. career_score il us c > 0 \<or> overlap_of us c > 0) cs)"
  by (induction cs arbitrary: acc) (simp_all add: Let_def)

lemma set_sort_reverse [simp]: "set (sort_reverse k xs) = set xs"
  by (simp add: sort_reverse_def)

lemma sort_reverse_sorted:
  "sorted_wrt (\<lambda>a b. k a \<ge> k b) (sort_reverse k xs)"
proof -
  have "sorted (map k (sort_key k (rev xs)))"
    by (rule sorted_sort_key)
  then have "sorted_wrt (\<lambda>a b. k a \<le> k b) (sort_key k (rev xs))"
    by (simp add: sorted_map)
  then show ?thesis
    by (simp add: sort_reverse_def sorted_wrt_rev)
qed

lemma sort_reverse_stable:
  "filter (\<lambda>x. k x = s) (sort_reverse k xs) = filter (\<lambda>x. k x = s) xs"
proof -
  have "filter (\<lambda>x. k x = s) (sort_reverse k xs) = rev (filter (\<lambda>x. k x = s) (sort_key k (rev xs)))"
    by (simp add: sort_reverse_def rev_filter)
  also have "\<dots> = rev (filter (\<lambda>x. k x = s) (rev xs))"
    by (simp only: sort_key_stable)
  also have "\<dots> = filter (\<lambda>x. k x = s) xs"
    by (simp add: rev_filter)
  finally show ?thesis .
qed

lemma sort_reverse_const:
  assumes "\<forall>x \<in> set xs. k x = s"
  shows "sort_reverse k xs = xs"
proof -
  have "filter (\<lambda>x. k x = s) (sort_reverse k xs) = sort_reverse k xs"
    using assms by (simp add: filter_id_conv)
  moreover have "filter (\<lambda>x. k x = s) xs = xs"
    using assms by (simp add: filter_id_conv)
  ultimately show ?thesis
    using sort_reverse_stable [of k s xs] by simp
qed

lemma fallback_scores: "x \<in> set (fallback_candidates db) \<Longrightarrow> cand_score x = 0"
  by (auto simp: fallback_candidates_def cand_score_def)

lemma fallback_careers: "x \<in> set (fallback_candidates db) \<Longrightarrow> cand_career x \<in> set (careers db)"
  by (auto simp: fallback_candidates_def cand_career_def dest: in_set_takeD)

lemma career_loop_Nil_iff:
  "career_loop il us cs [] = [] \<longleftrightarrow>
     (\<forall>c \<in> set cs. \<not> (career_score il us c > 0 \<or> overlap_of us c > 0))"
  by (simp add: career_loop_append filter_empty_conv)

lemma career_loop_member:
  "x \<in> set (career_loop il us cs []) \<Longrightarrow>
     cand_career x \<in> set cs \<and> cand_reqs x = career_reqs (cand_career x) \<and>
     cand_score x = career_score il us (cand_career x) \<and>
     (cand_score x > 0 \<or> overlap_of us (cand_career x) > 0)"
  by (auto simp: career_loop_append cand_career_def cand_reqs_def cand_score_def)

lemma spec_score_no_overlap:
  assumes "length (user_interests user) \<le> 2 ^ 53" and "spec_overlap user career = 0"
  shows "spec_score user career = of_nat (spec_interest_count user career)"
proof -
  have "spec_interest_count user career \<le> length (user_interests user)"
    by (simp add: spec_interest_count_def)
  with assms(1) have n: "spec_interest_count user career \<le> 2 ^ 53" by linarith
  then show ?thesis
    using assms(2) by (simp add: spec_score_def fmul_def fadd_def float_of_int_nat fl_of_nat float_of_int_def)
qed

lemma collect_candidates_score:
  assumes len: "length (user_interests user) \<le> 2 ^ 53"
    and x: "x \<in> set (collect_candidates db user)"
  shows "cand_score x = spec_score user (cand_career x)"
proof (cases "career_loop (interest_lower user) (user_skill_set user) (careers db) [] = []")
  case False
  with x have "x \<in> set (career_loop (interest_lower user) (user_skill_set user) (careers db) [])"
    by (simp add: collect_candidates_def Let_def)
  then show ?thesis
    using career_loop_member career_score_spec [OF len] by metis
next
  case True
  with x have fb: "x \<in> set (fallback_candidates db)"
    by (simp add: collect_candidates_def Let_def)
  let ?c = "cand_career x"
  from fb have "?c \<in> set (careers db)" by (rule fallback_careers)
  with True have "\<not> (career_score (interest_lower user) (user_skill_set user) ?c > 0
      \<or> overlap_of (user_skill_set user) ?c > 0)"
    by (simp add: career_loop_Nil_iff)
  then have le: "spec_score user ?c \<le> 0" and ov: "spec_overlap user ?c = 0"
    by (simp_all add: career_score_spec [OF len] overlap_of_spec)
  have "spec_score user ?c = of_nat (spec_interest_count user ?c)"
    using len ov by (rule spec_score_no_overlap)
  with le have "spec_score user ?c = 0" by simp
  then show ?thesis using fallback_scores [OF fb] by simp
qed

section \<open>The claims on the recommendation route\<close>

text \<open>
  C1. For a user with at most \<open>2 ^ 53\<close> interests (beyond that number Python's repeated
  \<^verbatim>\<open>score += 1.0\<close> no longer counts), the scorer gives every career the score
  \<^verbatim>\<open>count * 1.0 + overlap * 0.8\<close>, where \<open>count\<close> is the number of the user's interests that
  are, without regard to case, a substring of the career's title, and \<open>overlap\<close> is the size
  of the intersection of the career's required skills and the user's skills, both
  case-folded; every candidate the route returns carries that score of its career.
\<close>

theorem recommend_score:
  assumes "length (user_interests user) \<le> 2 ^ 53"
  shows "career_score (interest_lower user) (user_skill_set user) career = spec_score user career \<and>
         (\<forall>x \<in> set (sorted_candidates db user). cand_score x = spec_score user (cand_career x))"
  using assms
  by (simp add: career_score_spec sorted_candidates_def collect_candidates_score)

lemma example_user_interests: "user_interests example_user = [''programming'']"
  by code_simp

theorem recommend_score_witness:
  "length (user_interests example_user) \<le> 2 ^ 53 \<and>
   career_score (interest_lower example_user) (user_skill_set example_user) software_engineer
     = spec_score example_user software_engineer \<and>
   spec_score example_user software_engineer = 3602879701896397 / 4503599627370496 \<and>
   list_all (\<lambda>x. cand_score x = spec_score example_user (cand_career x))
     (sorted_candidates example_db example_user)"
proof -
  have len: "length (user_interests example_user) \<le> 2 ^ 53"
    by (simp add: example_user_interests)
  have val: "spec_score example_user software_engineer = 3602879701896397 / 4503599627370496"
    by code_simp
  from recommend_score [OF len, of software_engineer example_db] len val show ?thesis
    by (simp add: list_all_iff)
qed

text \<open>
  C2 (amended). Every candidate the scoring loop collects has a score above 0 or a nonzero
  skill overlap, and when the loop collects at least one candidate the route returns exactly
  those. When it collects none, the route returns the first five careers of the catalog with
  score 0, and none of them has a score above 0 or a nonzero overlap.
\<close>

theorem recommend_membership:
  "(career_loop (interest_lower user) (user_skill_set user) (careers db) [] \<noteq> [] \<longrightarrow>
      (\<forall>x \<in> set (sorted_candidates db user).
          cand_score x > 0 \<or> overlap_of (user_skill_set user) (cand_career x) > 0)) \<and>
   (career_loop (interest_lower user) (user_skill_set user) (careers db) [] = [] \<longrightarrow>
      sorted_candidates db user = fallback_candidates db \<and>
      map cand_career (fallback_candidates db) = take 5 (careers db) \<and>
      (\<forall>x \<in> set (sorted_candidates db user).
          cand_score x = 0 \<and> overlap_of (user_skill_set user) (cand_career x) = 0))"
proof (intro conjI impI)
  assume ne: "career_loop (interest_lower user) (user_skill_set user) (careers db) [] \<noteq> []"
  show "\<forall>x \<in> set (sorted_candidates db user).
          cand_score x > 0 \<or> overlap_of (user_skill_set user) (cand_career x) > 0"
  proof
    fix x assume "x \<in> set (sorted_candidates db user)"
    with ne have "x \<in> set (career_loop (interest_lower user) (user_skill_set user) (careers db) [])"
      by (simp add: sorted_candidates_def collect_candidates_def Let_def)
    then have "cand_career x \<in> set (careers db) \<and> cand_reqs x = career_reqs (cand_career x) \<and>
        cand_score x = career_score (interest_lower user) (user_skill_set user) (cand_career x) \<and>
        (cand_score x > 0 \<or> overlap_of (user_skill_set user) (cand_career x) > 0)"
      by (rule career_loop_member)
    then show "cand_score x > 0 \<or> overlap_of (user_skill_set user) (cand_career x) > 0"
      by (elim conjE)
  qed
next
  assume e: "career_loop (interest_lower user) (user_skill_set user) (careers db) [] = []"
  have "sort_reverse cand_score (fallback_candidates db) = fallback_candidates db"
    by (rule sort_reverse_const [where s = 0]) (simp add: fallback_scores)
  then show eq: "sorted_candidates db user = fallback_candidates db"
    using e by (simp add: sorted_candidates_def collect_candidates_def)
  show "map cand_career (fallback_candidates db) = take 5 (careers db)"
    by (simp add: fallback_candidates_def cand_career_def o_def)
  show "\<forall>x \<in> set (sorted_candidates db user).
          cand_score x = 0 \<and> overlap_of (user_skill_set user) (cand_career x) = 0"
  proof
    fix x assume "x \<in> set (sorted_candidates db user)"
    then have fb: "x \<in> set (fallback_candidates db)" by (simp add: eq)
    then have "cand_career x \<in> set (careers db)" by (rule fallback_careers)
    with e have "overlap_of (user_skill_set user) (cand_career x) = 0"
      by (simp add: career_loop_Nil_iff)
    with fb show "cand_score x = 0 \<and> overlap_of (user_skill_set user) (cand_career x) = 0"
      by (simp add: fallback_scores)
  qed
qed

theorem recommend_membership_witness:
  "career_loop (interest_lower example_user2) (user_skill_set example_user2)
        (careers example_db) [] \<noteq> [] \<and>
   list_all (\<lambda>x. cand_score x > 0 \<or> overlap_of (user_skill_set example_user2) (cand_career x) > 0)
        (sorted_candidates example_db example_user2) \<and>
   career_loop (interest_lower example_user3) (user_skill_set example_user3)
        (careers example_db) [] = [] \<and>
   sorted_candidates example_db example_user3 = fallback_candidates example_db \<and>
   list_all (\<lambda>x. cand_score x = 0 \<and> overlap_of (user_skill_set example_user3) (cand_career x) = 0)
        (sorted_candidates example_db example_user3)"
proof -
  have ne: "career_loop (interest_lower example_user2) (user_skill_set example_user2)
        (careers example_db) [] \<noteq> []"
    by code_simp
  have e: "career_loop (interest_lower example_user3) (user_skill_set example_user3)
        (careers example_db) [] = []"
    by code_simp
  from recommend_membership [of example_user2 example_db]
       recommend_membership [of example_user3 example_db] ne e
  show ?thesis
    by (simp add: list_all_iff)
qed

text \<open>The claim as stated fails on the fallback: for a user with no interest and no skill
  the route returns Software Engineer with score 0 and no overlap.\<close>

theorem recommend_membership_counterexample:
  "\<exists>x \<in> set (sorted_candidates example_db example_user3).
      \<not> (cand_score x > 0 \<or> overlap_of (user_skill_set example_user3) (cand_career x) > 0)"
  by code_simp



section \<open>Missing skills\<close>

lemma render_loop_recs:
  "ctx_recs (render_loop us cands ctx) =
     ctx_recs ctx @ map (\<lambda>x. \<lparr>rec_career = career_title (cand_career x),
                               rec_skills = cand_reqs x\<rparr>) cands"
  by (induction us cands ctx rule: render_loop.induct)
     (simp_all add: cand_career_def cand_reqs_def Let_def)

lemma render_loop_gaps_other:
  "t \<notin> set (map (\<lambda>x. career_title (cand_career x)) cands) \<Longrightarrow>
   ctx_gaps (render_loop us cands ctx) t = ctx_gaps ctx t"
  by (induction us cands ctx rule: render_loop.induct)
     (simp_all add: cand_career_def Let_def)

lemma render_loop_gaps:
  "distinct (map (\<lambda>x. career_title (cand_career x)) cands) \<Longrightarrow> x \<in> set cands \<Longrightarrow>
   ctx_gaps (render_loop us cands ctx) (career_title (cand_career x))
     = Some (missing_of us (cand_reqs x))"
proof (induction us cands ctx rule: render_loop.induct)
  case (1 us ctx)
  then show ?case by simp
next
  case (2 us career reqs score rest ctx)
  show ?case
  proof (cases "x = (career, reqs, score)")
    case True
    have "career_title career \<notin> set (map (\<lambda>x. career_title (cand_career x)) rest)"
      using "2.prems"(1) by (simp add: cand_career_def)
    then show ?thesis
      using True by (simp add: Let_def render_loop_gaps_other cand_career_def cand_reqs_def)
  next
    case False
    with "2.prems" have "x \<in> set rest" "distinct (map (\<lambda>x. career_title (cand_career x)) rest)"
      by simp_all
    then show ?thesis
      using "2.IH" by (simp add: Let_def)
  qed
qed

lemma sort_reverse_distinct_map:
  "distinct (map f (sort_reverse k xs)) \<longleftrightarrow> distinct (map f xs)"
proof -
  have "mset (map f (sort_reverse k xs)) = mset (map f xs)"
    by (simp add: sort_reverse_def)
  then show ?thesis
    by (rule mset_eq_imp_distinct_iff)
qed

lemma collect_candidates_titles:
  assumes "distinct (map career_title (careers db))"
  shows "distinct (map (\<lambda>x. career_title (cand_career x)) (collect_candidates db user))"
proof -
  have "distinct (map career_title (filter P (careers db)))" for P
    using assms by (rule distinct_map_filter)
  moreover have "distinct (map career_title (take 5 (careers db)))"
    using assms by (simp add: take_map [symmetric] distinct_take)
  ultimately show ?thesis
    by (simp add: collect_candidates_def Let_def career_loop_append fallback_candidates_def
        cand_career_def o_def)
qed

lemma gap_loop_other:
  "t \<notin> rec_career ` set rs \<Longrightarrow> gap_loop rs user gaps t = gaps t"
  by (induction rs arbitrary: gaps) (simp_all add: Let_def)

lemma gap_loop_lookup:
  "distinct (map rec_career rs) \<Longrightarrow> r \<in> set rs \<Longrightarrow>
   gap_loop rs user gaps (rec_career r) = Some (set (rec_skills r) - user)"
proof (induction rs arbitrary: gaps)
  case Nil
  then show ?case by simp
next
  case (Cons a rs)
  show ?case
  proof (cases "r = a")
    case True
    then show ?thesis using Cons.prems(1) by (simp add: Let_def gap_loop_other)
  next
    case False
    then show ?thesis using Cons by (simp add: Let_def)
  qed
qed

section \<open>LIKE patterns without wildcards\<close>

lemma of_char_lower_char:
  "(of_char (lower_char c) :: nat) =
     (if 65 \<le> (of_char c :: nat) \<and> (of_char c :: nat) \<le> 90 then of_char c + 32 else of_char c)"
  by (simp add: lower_char_def Let_def of_char_of)

lemma lower_char_idem [simp]: "lower_char (lower_char c) = lower_char c"
proof -
  have "(of_char (lower_char (lower_char c)) :: nat) = of_char (lower_char c)"
    by (simp add: of_char_lower_char)
  then show ?thesis by (simp only: of_char_eq_iff)
qed

lemma lower_char_percent: "lower_char c = CHR ''%'' \<longleftrightarrow> c = CHR ''%''"
proof -
  have "lower_char c = CHR ''%'' \<longleftrightarrow> (of_char (lower_char c) :: nat) = of_char CHR ''%''"
    by (simp only: of_char_eq_iff)
  also have "\<dots> \<longleftrightarrow> (of_char c :: nat) = of_char CHR ''%''"
    by (simp add: of_char_lower_char)
  also have "\<dots> \<longleftrightarrow> c = CHR ''%''"
    by (simp only: of_char_eq_iff)
  finally show ?thesis .
qed

lemma lower_char_underscore: "lower_char c = CHR ''_'' \<longleftrightarrow> c = CHR ''_''"
proof -
  have "lower_char c = CHR ''_'' \<longleftrightarrow> (of_char (lower_char c) :: nat) = of_char CHR ''_''"
    by (simp only: of_char_eq_iff)
  also have "\<dots> \<longleftrightarrow> (of_char c :: nat) = of_char CHR ''_''"
    by (simp add: of_char_lower_char)
  also have "\<dots> \<longleftrightarrow> c = CHR ''_''"
    by (simp only: of_char_eq_iff)
  finally show ?thesis .
qed


lemma lower_idem [simp]: "lower (lower s) = lower s"
  by (simp add: lower_def)

lemma lower_wildcard_free:
  "CHR ''%'' \<in> set (lower q) \<longleftrightarrow> CHR ''%'' \<in> set q"
  "CHR ''_'' \<in> set (lower q) \<longleftrightarrow> CHR ''_'' \<in> set q"
proof -
  have "CHR ''%'' \<in> lower_char ` set q \<longleftrightarrow> (\<exists>c \<in> set q. lower_char c = CHR ''%'')"
    by (simp add: image_iff eq_commute)
  then show "CHR ''%'' \<in> set (lower q) \<longleftrightarrow> CHR ''%'' \<in> set q"
    by (simp add: lower_def lower_char_percent)
  have "CHR ''_'' \<in> lower_char ` set q \<longleftrightarrow> (\<exists>c \<in> set q. lower_char c = CHR ''_'')"
    by (simp add: image_iff eq_commute)
  then show "CHR ''_'' \<in> set (lower q) \<longleftrightarrow> CHR ''_'' \<in> set q"
    by (simp add: lower_def lower_char_underscore)
qed

lemma sql_like_percent [simp]: "sql_like ''%'' t"
  by (induction t) simp_all

lemma sql_like_prefix:
  "CHR ''%'' \<notin> set q \<Longrightarrow> CHR ''_'' \<notin> set q \<Longrightarrow>
   sql_like (q @ ''%'') t \<longleftrightarrow> prefix (map lower_char q) (map lower_char t)"
proof (induction q arbitrary: t)
  case Nil
  show ?case by simp
next
  case (Cons p ps)
  then have p: "p \<noteq> CHR ''%''" "p \<noteq> CHR ''_''"
    and ps: "CHR ''%'' \<notin> set ps" "CHR ''_'' \<notin> set ps"
    by auto
  show ?case
  proof (cases t)
    case Nil
    then show ?thesis using p by simp
  next
    case (Cons c cs)
    then show ?thesis using p Cons.IH [OF ps, of cs] by simp
  qed
qed


lemma sql_like_any_suffix:
  "sql_like (CHR ''%'' # p) t \<longleftrightarrow> (\<exists>s. suffix s t \<and> sql_like p s)"
proof (induction t)
  case Nil
  show ?case by (cases p) auto
next
  case (Cons c cs)
  have "sql_like (CHR ''%'' # p) (c # cs) \<longleftrightarrow> sql_like p (c # cs) \<or> sql_like (CHR ''%'' # p) cs"
    by simp
  also have "\<dots> \<longleftrightarrow> sql_like p (c # cs) \<or> (\<exists>s. suffix s cs \<and> sql_like p s)"
    by (simp only: Cons.IH)
  also have "\<dots> \<longleftrightarrow> (\<exists>s. suffix s (c # cs) \<and> sql_like p s)"
    by (auto simp: suffix_Cons)
  finally show ?case .
qed

lemma suffix_of_lower: "suffix s (lower t) \<Longrightarrow> lower s = s"
proof -
  assume "suffix s (lower t)"
  then obtain u where u: "lower t = u @ s" by (auto simp: suffix_def)
  have "lower (u @ s) = u @ s"
    using lower_idem [of t] by (simp only: u)
  then have "lower u @ lower s = u @ s"
    by (simp add: lower_def)
  then show "lower s = s"
    by (simp add: lower_def)
qed

lemma ilike_contains:
  assumes "CHR ''%'' \<notin> set q" "CHR ''_'' \<notin> set q"
  shows "ilike t (''%'' @ q @ ''%'') \<longleftrightarrow> sublist (lower q) (lower t)"
proof -
  have pat: "lower (''%'' @ q @ ''%'') = CHR ''%'' # (lower q @ ''%'')"
    by (simp add: lower_def lower_char_def)
  have free: "CHR ''%'' \<notin> set (lower q)" "CHR ''_'' \<notin> set (lower q)"
    using assms by (simp_all add: lower_wildcard_free)
  have "ilike t (''%'' @ q @ ''%'') \<longleftrightarrow> (\<exists>s. suffix s (lower t) \<and> sql_like (lower q @ ''%'') s)"
    unfolding ilike_def pat by (rule sql_like_any_suffix)
  also have "\<dots> \<longleftrightarrow> (\<exists>s. suffix s (lower t) \<and> prefix (lower (lower q)) (lower s))"
    using sql_like_prefix [OF free] by (simp add: lower_def)
  also have "\<dots> \<longleftrightarrow> (\<exists>s. suffix s (lower t) \<and> prefix (lower q) s)"
    using suffix_of_lower [of _ t] by auto
  also have "\<dots> \<longleftrightarrow> sublist (lower q) (lower t)"
    by (auto simp: sublist_altdef')
  finally show ?thesis .
qed

section \<open>Resource lookup\<close>




section \<open>Saving a plan\<close>

lemma numbered_rows_append:
  "numbered_rows pid order (xs @ ys) =
     numbered_rows pid order xs @ numbered_rows pid (order + int (length xs)) ys"
  by (induction xs arbitrary: order) (simp_all add: add.assoc)

lemma numbered_rows_titles [simp]: "map step_title (numbered_rows pid order ts) = ts"
  by (induction ts arbitrary: order) simp_all

lemma numbered_rows_plan [simp]:
  "map step_plan_id (numbered_rows pid order ts) = replicate (length ts) (Some pid)"
  by (induction ts arbitrary: order) simp_all

lemma numbered_rows_order:
  "map sort_order (numbered_rows pid order ts) = map (\<lambda>i. order + int i) [0..<length ts]"
proof (induction ts arbitrary: order)
  case Nil
  show ?case by simp
next
  case (Cons t ts)
  have "map (\<lambda>i. order + int i) [0..<length (t # ts)]
      = order # map (\<lambda>i. order + int i) (map Suc [0..<length ts])"
    by (simp add: upt_conv_Cons map_Suc_upt del: upt_Suc)
  also have "\<dots> = order # map (\<lambda>i. order + 1 + int i) [0..<length ts]"
    by (simp add: add.assoc)
  finally show ?case
    by (simp add: Cons.IH)
qed

lemma numbered_rows_increasing:
  "sorted_wrt (<) (map sort_order (numbered_rows pid order ts))"
  by (simp add: numbered_rows_order sorted_wrt_map)

lemma step_loop_rows:
  "step_loop pid t ss (order, db) =
     (order + int (length ss),
      db\<lparr>plan_steps := plan_steps db @ numbered_rows pid order (map (\<lambda>s. t @ '': '' @ s) ss)\<rparr>)"
  by (induction ss arbitrary: order db) (simp_all add: add_plan_step_def add.assoc)

lemma phase_loop_rows:
  "phase_loop pid phs (order, db) =
     (order + int (length (flattened_titles phs)),
      db\<lparr>plan_steps := plan_steps db @ numbered_rows pid order (flattened_titles phs)\<rparr>)"
proof (induction phs arbitrary: order db)
  case Nil
  show ?case by (simp add: flattened_titles_def)
next
  case (Cons ph phs)
  have "flattened_titles (ph # phs) = map (\<lambda>s. title ph @ '': '' @ s) (steps ph) @ flattened_titles phs"
    by (simp add: flattened_titles_def)
  then show ?case
    by (simp add: step_loop_rows Cons.IH numbered_rows_append add.assoc)
qed

lemma fold_max_upper:
  "a \<le> fold max ids a \<and> (\<forall>x \<in> set ids. x \<le> fold max ids (a::nat))"
proof (induction ids arbitrary: a)
  case Nil
  show ?case by simp
next
  case (Cons y ys)
  from Cons.IH [of "max y a"] show ?case by auto
qed

lemma next_id_fresh: "next_id ids \<notin> set ids"
  using fold_max_upper [of 0 ids] by (auto simp: next_id_def)

lemma find_or_create_career_steps:
  "plan_steps (snd (find_or_create_career db t)) = plan_steps db \<and>
   plans (snd (find_or_create_career db t)) = plans db"
  by (simp add: find_or_create_career_def Let_def split: option.splits)

lemma numbered_rows_from_one:
  "map sort_order (numbered_rows pid 1 ts) = map int [1..<Suc (length ts)]"
proof -
  have "map int [1..<Suc (length ts)] = map int (map Suc [0..<length ts])"
    by (simp only: map_Suc_upt One_nat_def)
  then show ?thesis
    by (simp add: numbered_rows_order)
qed

lemma save_plan_result:
  assumes "save_plan db uid req = (Inr resp, db')"
  shows "\<exists>user. get_or_404 db uid = Inr user \<and>
     or_empty (py_or (form_career req) (json_career req)) \<noteq> [] \<and> form_missing req \<noteq> [] \<and>
     (let found = find_or_create_career db (or_empty (py_or (form_career req) (json_career req)));
          career = fst found;
          pid = next_id (map plan_id (plans db));
          required = map (\<lambda>sk. lower (skill_name sk))
                       (List.map_filter req_skill (requirements career));
          titles = flattened_titles (build_roadmap (career_title career) required (form_missing req))
                     @ [''Build a small project to demonstrate skills'']
      in saved_plan_id resp = pid \<and>
         plan_steps db' = plan_steps db @ numbered_rows pid 1 titles)"
proof (cases "get_or_404 db uid")
  case (Inl e)
  with assms show ?thesis by (simp add: save_plan_def)
next
  case (Inr user)
  let ?t = "or_empty (py_or (form_career req) (json_career req))"
  have t: "?t \<noteq> []"
    using assms Inr by (auto simp: save_plan_def Let_def)
  obtain career db1 where found: "find_or_create_career db ?t = (career, db1)"
    by (cases "find_or_create_career db ?t")
  have db1: "plan_steps db1 = plan_steps db" "plans db1 = plans db"
    using find_or_create_career_steps [of db ?t] by (simp_all add: found)
  have m: "form_missing req \<noteq> []"
    using assms Inr t found by (auto simp: save_plan_def Let_def)
  show ?thesis
    using assms Inr t m found db1
    by (auto simp: save_plan_def Let_def phase_loop_rows add_plan_step_def numbered_rows_append)
qed

text \<open>
  C5. When \<^verbatim>\<open>save_plan\<close> answers with success, the rows it has added to \<^verbatim>\<open>plan_steps\<close> all
  belong to the new plan, whose key no earlier plan has; their titles are the flattened
  phase and step sequence of \<^verbatim>\<open>build_roadmap\<close> followed by the fixed step
  \<^verbatim>\<open>Build a small project to demonstrate skills\<close>; and their \<^verbatim>\<open>sort_order\<close> values are
  1, 2, 3, ... in that order, hence strictly increasing, the fixed step having the next
  value after the last roadmap step.
\<close>

theorem save_plan_steps:
  assumes "save_plan db uid req = (Inr resp, db')"
  shows "let career = fst (find_or_create_career db
                             (or_empty (py_or (form_career req) (json_career req))));
             required = map (\<lambda>sk. lower (skill_name sk))
                          (List.map_filter req_skill (requirements career));
             titles = flattened_titles
                        (build_roadmap (career_title career) required (form_missing req))
                        @ [''Build a small project to demonstrate skills''];
             rows = drop (length (plan_steps db)) (plan_steps db')
         in plan_steps db' = plan_steps db @ rows \<and>
            map step_title rows = titles \<and>
            map sort_order rows = map int [1..<Suc (length titles)] \<and>
            sorted_wrt (<) (map sort_order rows) \<and>
            map step_plan_id rows = replicate (length titles) (Some (saved_plan_id resp)) \<and>
            saved_plan_id resp \<notin> plan_id ` set (plans db)"
proof -
  let ?career = "fst (find_or_create_career db
                             (or_empty (py_or (form_career req) (json_career req))))"
  let ?titles = "flattened_titles
      (build_roadmap (career_title ?career)
         (map (\<lambda>sk. lower (skill_name sk)) (List.map_filter req_skill (requirements ?career)))
         (form_missing req))
      @ [''Build a small project to demonstrate skills'']"
  let ?pid = "next_id (map plan_id (plans db))"
  let ?rows = "drop (length (plan_steps db)) (plan_steps db')"
  from save_plan_result [OF assms, unfolded Let_def]
  have id: "saved_plan_id resp = ?pid"
    and steps: "plan_steps db' = plan_steps db @ numbered_rows ?pid 1 ?titles"
    by blast+
  have rows: "?rows = numbered_rows ?pid 1 ?titles"
    by (simp add: steps)
  have 1: "plan_steps db' = plan_steps db @ ?rows"
    unfolding rows by (rule steps)
  have 2: "map step_title ?rows = ?titles"
    by (simp only: rows numbered_rows_titles)
  have 3: "map sort_order ?rows = map int [1..<Suc (length ?titles)]"
    by (simp only: rows numbered_rows_from_one)
  have 4: "sorted_wrt (<) (map sort_order ?rows)"
    by (simp only: rows numbered_rows_increasing)
  have 5: "map step_plan_id ?rows = replicate (length ?titles) (Some (saved_plan_id resp))"
    by (simp only: rows numbered_rows_plan id)
  have 6: "saved_plan_id resp \<notin> plan_id ` set (plans db)"
    using next_id_fresh [of "map plan_id (plans db)"] by (simp add: id)
  from 1 2 3 4 5 6 show ?thesis
    unfolding Let_def by blast
qed

lemma example_save:
  "save_plan example_db 1
     \<lparr>form_career = Some ''Data Analyst'', json_career = None, form_missing = [''sql'']\<rparr>
   = (Inr \<lparr>message = ''Plan saved for Data Analyst'', saved_plan_id = 1\<rparr>,
      example_db\<lparr>plans := [\<lparr>plan_id = 1, plan_user_id = 1, plan_career_id = Some 2,
                               plan_title = ''Roadmap for Data Analyst''\<rparr>],
                 plan_steps := numbered_rows 1 1
                   (flattened_titles (build_roadmap ''Data Analyst''
                        [''python'', ''sql'', ''statistics''] [''sql''])
                    @ [''Build a small project to demonstrate skills''])\<rparr>)"
  by (simp add: save_plan_def get_or_404_def example_db_def example_user_def example_user2_def
      example_user3_def software_engineer_def data_analyst_def backend_developer_def
      requirement_of_def py_or_def or_empty_def find_or_create_career_def next_id_def
      List.map_filter_def lower_def lower_char_def
      phase_loop_rows add_plan_step_def numbered_rows_append Let_def)


lemma flattened_titles_length:
  "length (flattened_titles (build_roadmap t r m)) = length m + length r + 9"
  by (simp add: flattened_titles_def build_roadmap_def roadmap_phases_eq projects_phase_def
      portfolio_phase_def apply_phase_def)

theorem save_plan_steps_witness:
  "save_plan example_db 1
       \<lparr>form_career = Some ''Data Analyst'', json_career = None, form_missing = [''sql'']\<rparr>
     = (Inr \<lparr>message = ''Plan saved for Data Analyst'', saved_plan_id = 1\<rparr>,
        snd (save_plan example_db 1
          \<lparr>form_career = Some ''Data Analyst'', json_career = None, form_missing = [''sql'']\<rparr>)) \<and>
   map sort_order (plan_steps (snd (save_plan example_db 1
          \<lparr>form_career = Some ''Data Analyst'', json_career = None, form_missing = [''sql'']\<rparr>)))
     = [1, 2, 3, 4, 5, 6, 7, 8, 9, 10, 11, 12, 13, 14] \<and>
   sorted_wrt (<) (map sort_order (plan_steps (snd (save_plan example_db 1
          \<lparr>form_career = Some ''Data Analyst'', json_career = None, form_missing = [''sql'']\<rparr>)))) \<and>
   map step_plan_id (plan_steps (snd (save_plan example_db 1
          \<lparr>form_career = Some ''Data Analyst'', json_career = None, form_missing = [''sql'']\<rparr>)))
     = replicate 14 (Some 1)"
proof -
  let ?req = "\<lparr>form_career = Some ''Data Analyst'', json_career = None, form_missing = [''sql'']\<rparr>"
  let ?resp = "\<lparr>message = ''Plan saved for Data Analyst'', saved_plan_id = 1\<rparr>"
  have hyp: "save_plan example_db 1 ?req = (Inr ?resp, snd (save_plan example_db 1 ?req))"
    by (simp only: example_save snd_conv)
  have none: "plan_steps example_db = []"
    by (simp add: example_db_def)
  have career: "fst (find_or_create_career example_db
                  (or_empty (py_or (form_career ?req) (json_career ?req)))) = data_analyst"
    by (simp add: find_or_create_career_def example_db_def py_or_def or_empty_def
        software_engineer_def data_analyst_def backend_developer_def)
  have reqs: "length (requirements data_analyst) = 3"
    by (simp add: data_analyst_def)
  have len: "length (List.map_filter req_skill (requirements data_analyst)) = 3"
    by (simp add: data_analyst_def requirement_of_def List.map_filter_def)
  have upt: "map int [1..<15] = [1, 2, 3, 4, 5, 6, 7, 8, 9, 10, 11, 12, 13, 14]"
    by (simp add: upt_rec)
  from save_plan_steps [OF hyp]
  have "map sort_order (plan_steps (snd (save_plan example_db 1 ?req))) = map int [1..<15] \<and>
        sorted_wrt (<) (map sort_order (plan_steps (snd (save_plan example_db 1 ?req)))) \<and>
        map step_plan_id (plan_steps (snd (save_plan example_db 1 ?req))) = replicate 14 (Some 1)"
    unfolding Let_def career none
    by (simp add: flattened_titles_length len sorted_wrt_map)
  with hyp upt show ?thesis
    by simp
qed

section \<open>Missing skills and the requirement rows\<close>

lemma collect_candidates_careers:
  "x \<in> set (collect_candidates db user) \<Longrightarrow> cand_career x \<in> set (careers db)"
proof (cases "career_loop (interest_lower user) (user_skill_set user) (careers db) [] = []")
  case True
  assume "x \<in> set (collect_candidates db user)"
  with True have "x \<in> set (fallback_candidates db)"
    by (simp add: collect_candidates_def Let_def)
  then show ?thesis by (rule fallback_careers)
next
  case False
  assume "x \<in> set (collect_candidates db user)"
  with False have "x \<in> set (career_loop (interest_lower user) (user_skill_set user) (careers db) [])"
    by (simp add: collect_candidates_def Let_def)
  then have "cand_career x \<in> set (careers db) \<and> cand_reqs x = career_reqs (cand_career x) \<and>
        cand_score x = career_score (interest_lower user) (user_skill_set user) (cand_career x) \<and>
        (cand_score x > 0 \<or> overlap_of (user_skill_set user) (cand_career x) > 0)"
    by (rule career_loop_member)
  then show ?thesis by (elim conjE)
qed

lemma collect_candidates_reqs:
  assumes "x \<in> set (collect_candidates db user)"
  shows "cand_reqs x = career_reqs (cand_career x) \<or> cand_reqs x = required_skills_of (cand_career x)"
proof (cases "career_loop (interest_lower user) (user_skill_set user) (careers db) [] = []")
  case True
  with assms have "x \<in> set (fallback_candidates db)"
    by (simp add: collect_candidates_def Let_def)
  then show ?thesis
    by (auto simp: fallback_candidates_def cand_reqs_def cand_career_def required_skills_of_def)
next
  case False
  with assms have "x \<in> set (career_loop (interest_lower user) (user_skill_set user) (careers db) [])"
    by (simp add: collect_candidates_def Let_def)
  then have "cand_career x \<in> set (careers db) \<and> cand_reqs x = career_reqs (cand_career x) \<and>
        cand_score x = career_score (interest_lower user) (user_skill_set user) (cand_career x) \<and>
        (cand_score x > 0 \<or> overlap_of (user_skill_set user) (cand_career x) > 0)"
    by (rule career_loop_member)
  then show ?thesis by blast
qed

lemma career_reqs_names:
  "career_reqs c = map lower (filter (\<lambda>n. n \<noteq> []) (required_skills_of c))"
  by (simp add: career_reqs_def required_skills_of_def filter_map o_def)

lemma missing_of_career_reqs:
  "lower ` set (missing_of us (career_reqs c)) =
     {y. \<exists>n \<in> set (required_skills_of c). n \<noteq> [] \<and> lower n \<notin> us \<and> y = lower n}"
proof (intro set_eqI iffI)
  fix y
  assume "y \<in> lower ` set (missing_of us (career_reqs c))"
  then obtain r where r: "r \<in> set (missing_of us (career_reqs c))" "y = lower r"
    by auto
  then obtain n where "n \<in> set (required_skills_of c)" "n \<noteq> []" "r = lower n" "lower r \<notin> us"
    by (auto simp: career_reqs_names missing_of_def)
  with r(2) show "y \<in> {y. \<exists>n \<in> set (required_skills_of c). n \<noteq> [] \<and> lower n \<notin> us \<and> y = lower n}"
    by auto
next
  fix y
  assume "y \<in> {y. \<exists>n \<in> set (required_skills_of c). n \<noteq> [] \<and> lower n \<notin> us \<and> y = lower n}"
  then obtain n where n: "n \<in> set (required_skills_of c)" "n \<noteq> []" "lower n \<notin> us" "y = lower n"
    by auto
  then have "lower n \<in> set (missing_of us (career_reqs c))"
    by (auto simp: career_reqs_names missing_of_def)
  then have "lower (lower n) \<in> lower ` set (missing_of us (career_reqs c))"
    by (rule imageI)
  with n(4) show "y \<in> lower ` set (missing_of us (career_reqs c))"
    by simp
qed

lemma missing_of_set:
  assumes "reqs = career_reqs c \<or> reqs = required_skills_of c"
  shows "lower ` set (missing_of us reqs) - {[]} = lower ` set (required_skills_of c) - us - {[]}"
  using assms
proof
  assume "reqs = career_reqs c"
  then show ?thesis
    by (auto simp: missing_of_career_reqs)
next
  assume "reqs = required_skills_of c"
  then show ?thesis
    by (auto simp: missing_of_def)
qed

lemma dedupe_loop_distinct:
  "distinct (map rec_career out) \<Longrightarrow> rec_career ` set out \<subseteq> seen \<Longrightarrow>
   distinct (map rec_career (dedupe_loop rs seen out))"
proof (induction rs arbitrary: seen out)
  case Nil
  then show ?case by simp
next
  case (Cons a rs)
  show ?case
  proof (cases "rec_career a \<in> seen")
    case True
    then show ?thesis using Cons by simp
  next
    case False
    have "distinct (map rec_career (out @ [a]))"
      using Cons.prems False by auto
    moreover have "rec_career ` set (out @ [a]) \<subseteq> insert (rec_career a) seen"
      using Cons.prems by auto
    ultimately have "distinct (map rec_career (dedupe_loop rs (insert (rec_career a) seen) (out @ [a])))"
      by (rule Cons.IH)
    then show ?thesis using False by simp
  qed
qed

lemma dedupe_loop_subset:
  "set (dedupe_loop rs seen out) \<subseteq> set rs \<union> set out"
proof (induction rs arbitrary: seen out)
  case Nil
  show ?case by simp
next
  case (Cons a rs)
  show ?case
    using Cons.IH [of "insert (rec_career a) seen" "out @ [a]"] Cons.IH [of seen out]
    by auto
qed

lemma get_recommendations_distinct:
  "distinct (map rec_career (get_recommendations its sks))"
  by (simp add: get_recommendations_def Let_def dedupe_loop_distinct)

lemma catalog_lowercase:
  "list_all (\<lambda>r. list_all (\<lambda>s. lower s = s) (rec_skills r))
     (\<lparr>rec_career = ''General Counseling'', rec_skills = [''communication'', ''career-planning'']\<rparr>
        # map snd CAREER_MAP)"
  by code_simp

lemma get_recommendations_lowercase:
  assumes "r \<in> set (get_recommendations its sks)" and "s \<in> set (rec_skills r)"
  shows "lower s = s"
proof -
  have "set (interests_loop its []) \<subseteq> snd ` set CAREER_MAP"
    by (auto simp: interests_loop_append)
  then have "set (dedupe_loop (interests_loop its []) {} []) \<subseteq> snd ` set CAREER_MAP"
    using dedupe_loop_subset [of "interests_loop its []" "{}" "[]"] by auto
  with assms(1) have "r \<in> set (\<lparr>rec_career = ''General Counseling'',
        rec_skills = [''communication'', ''career-planning'']\<rparr> # map snd CAREER_MAP)"
    by (auto simp: get_recommendations_def Let_def split: if_splits)
  with catalog_lowercase assms(2) show ?thesis
    by (auto simp: list_all_iff)
qed


text \<open>
  C3 (amended). In the web route, for a catalog whose career titles are distinct, every
  career of the recommendation output is a career of the catalog, and the missing skills
  reported under its title are, compared without regard to case and leaving aside a skill
  whose name is the empty string, the skills its requirement rows name minus the user's
  skills. In the standalone recommender, for every career \<^verbatim>\<open>get_recommendations\<close> returns,
  \<^verbatim>\<open>skill_gap\<close> reports the set of its required skills whose lowercase form is not among the
  user's skills lowercased and stripped of surrounding whitespace.
\<close>

theorem missing_skills:
  "(get_or_404 db uid = Inr user \<and> distinct (map career_title (careers db)) \<longrightarrow>
      (\<exists>ctx. recommend db uid = Inr ctx \<and>
         map rec_career (ctx_recs ctx)
           = map (\<lambda>x. career_title (cand_career x)) (sorted_candidates db user) \<and>
         (\<forall>x \<in> set (sorted_candidates db user).
            cand_career x \<in> set (careers db) \<and>
            (\<exists>m. ctx_gaps ctx (career_title (cand_career x)) = Some m \<and>
                 lower ` set m - {[]} =
                   lower ` set (required_skills_of (cand_career x))
                     - lower ` set (effective_skills user) - {[]})))) \<and>
   (r \<in> set (get_recommendations its sks) \<longrightarrow>
      skill_gap (get_recommendations its sks) us (rec_career r) =
        Some {s \<in> set (rec_skills r). lower s \<notin> (\<lambda>u. strip (lower u)) ` set us})"
proof (intro conjI impI)
  assume a: "get_or_404 db uid = Inr user \<and> distinct (map career_title (careers db))"
  let ?cands = "sorted_candidates db user"
  let ?ctx = "render_loop (user_skill_set user) ?cands
                 \<lparr>ctx_recs = [], ctx_gaps = Map.empty, ctx_roadmaps = Map.empty\<rparr>"
  have d: "distinct (map (\<lambda>x. career_title (cand_career x)) ?cands)"
    using a collect_candidates_titles [of db user]
    by (simp add: sorted_candidates_def sort_reverse_distinct_map)
  have r: "recommend db uid = Inr ?ctx"
    using a by (simp add: recommend_def)
  have recs: "map rec_career (ctx_recs ?ctx) = map (\<lambda>x. career_title (cand_career x)) ?cands"
    by (simp add: render_loop_recs o_def)
  have each: "cand_career x \<in> set (careers db) \<and>
      (\<exists>m. ctx_gaps ?ctx (career_title (cand_career x)) = Some m \<and>
           lower ` set m - {[]} =
             lower ` set (required_skills_of (cand_career x))
               - lower ` set (effective_skills user) - {[]})"
    if x: "x \<in> set ?cands" for x
  proof -
    from x have c: "x \<in> set (collect_candidates db user)"
      by (simp add: sorted_candidates_def)
    have gap: "ctx_gaps ?ctx (career_title (cand_career x))
        = Some (missing_of (user_skill_set user) (cand_reqs x))"
      by (rule render_loop_gaps [OF d x])
    have "lower ` set (missing_of (user_skill_set user) (cand_reqs x)) - {[]}
        = lower ` set (required_skills_of (cand_career x)) - user_skill_set user - {[]}"
      by (rule missing_of_set [OF collect_candidates_reqs [OF c]])
    with gap collect_candidates_careers [OF c] show ?thesis
      by (simp add: user_skill_set_effective)
  qed
  from r recs each show "\<exists>ctx. recommend db uid = Inr ctx \<and>
         map rec_career (ctx_recs ctx)
           = map (\<lambda>x. career_title (cand_career x)) (sorted_candidates db user) \<and>
         (\<forall>x \<in> set (sorted_candidates db user).
            cand_career x \<in> set (careers db) \<and>
            (\<exists>m. ctx_gaps ctx (career_title (cand_career x)) = Some m \<and>
                 lower ` set m - {[]} =
                   lower ` set (required_skills_of (cand_career x))
                     - lower ` set (effective_skills user) - {[]}))"
    by blast
next
  assume r: "r \<in> set (get_recommendations its sks)"
  have "set (rec_skills r) - (\<lambda>u. strip (lower u)) ` set us
      = {s \<in> set (rec_skills r). lower s \<notin> (\<lambda>u. strip (lower u)) ` set us}"
    using get_recommendations_lowercase [OF r] by auto
  then show "skill_gap (get_recommendations its sks) us (rec_career r) =
        Some {s \<in> set (rec_skills r). lower s \<notin> (\<lambda>u. strip (lower u)) ` set us}"
    using gap_loop_lookup [OF get_recommendations_distinct r]
    by (simp add: skill_gap_def)
qed

theorem missing_skills_witness:
  "get_or_404 example_db 2 = Inr example_user2 \<and>
   distinct (map career_title (careers example_db)) \<and>
   (\<exists>ctx. recommend example_db 2 = Inr ctx \<and>
      map rec_career (ctx_recs ctx)
        = map (\<lambda>x. career_title (cand_career x)) (sorted_candidates example_db example_user2) \<and>
      (\<forall>x \<in> set (sorted_candidates example_db example_user2).
         cand_career x \<in> set (careers example_db) \<and>
         (\<exists>m. ctx_gaps ctx (career_title (cand_career x)) = Some m \<and>
              lower ` set m - {[]} =
                lower ` set (required_skills_of (cand_career x))
                  - lower ` set (effective_skills example_user2) - {[]}))) \<and>
   (case recommend example_db 2 of
      Inl e \<Rightarrow> False
    | Inr ctx \<Rightarrow> ctx_gaps ctx ''Back-end Developer'' = Some [''sql'']) \<and>
   required_skills_of backend_developer = [''Python'', ''sql''] \<and>
   effective_skills example_user2 = [''Python''] \<and>
   \<lparr>rec_career = ''Data Analyst'', rec_skills = [''python'', ''sql'', ''statistics'']\<rparr>
     \<in> set (get_recommendations [''data''] []) \<and>
   skill_gap (get_recommendations [''data''] []) [''Python '', ''SQL''] ''Data Analyst''
     = Some {s \<in> set [''python'', ''sql'', ''statistics''].
               lower s \<notin> (\<lambda>u. strip (lower u)) ` set [''Python '', ''SQL'']} \<and>
   {s \<in> set [''python'', ''sql'', ''statistics''].
      lower s \<notin> (\<lambda>u. strip (lower u)) ` set [''Python '', ''SQL'']} = {''statistics''}"
proof -
  let ?r = "\<lparr>rec_career = ''Data Analyst'', rec_skills = [''python'', ''sql'', ''statistics'']\<rparr>"
  have h1: "get_or_404 example_db 2 = Inr example_user2 \<and>
      distinct (map career_title (careers example_db))"
    by code_simp
  have h2: "?r \<in> set (get_recommendations [''data''] [])"
    by code_simp
  have web: "case recommend example_db 2 of
      Inl e \<Rightarrow> False
    | Inr ctx \<Rightarrow> ctx_gaps ctx ''Back-end Developer'' = Some [''sql'']"
    by code_simp
  have names: "required_skills_of backend_developer = [''Python'', ''sql''] \<and>
      effective_skills example_user2 = [''Python'']"
    by code_simp
  have diff: "{s \<in> set [''python'', ''sql'', ''statistics''].
      lower s \<notin> (\<lambda>u. strip (lower u)) ` set [''Python '', ''SQL'']} = {''statistics''}"
    by code_simp
  from missing_skills [of example_db 2 example_user2 ?r "[''data'']" "[]"
      "[''Python '', ''SQL'']"] h1 h2
  have "(\<exists>ctx. recommend example_db 2 = Inr ctx \<and>
      map rec_career (ctx_recs ctx)
        = map (\<lambda>x. career_title (cand_career x)) (sorted_candidates example_db example_user2) \<and>
      (\<forall>x \<in> set (sorted_candidates example_db example_user2).
         cand_career x \<in> set (careers example_db) \<and>
         (\<exists>m. ctx_gaps ctx (career_title (cand_career x)) = Some m \<and>
              lower ` set m - {[]} =
                lower ` set (required_skills_of (cand_career x))
                  - lower ` set (effective_skills example_user2) - {[]}))) \<and>
    skill_gap (get_recommendations [''data''] []) [''Python '', ''SQL''] (rec_career ?r)
     = Some {s \<in> set (rec_skills ?r).
               lower s \<notin> (\<lambda>u. strip (lower u)) ` set [''Python '', ''SQL'']}"
    by blast
  then show ?thesis
    using h1 h2 web names diff by simp
qed

text \<open>
  The claim as stated fails in three places. \<^verbatim>\<open>skill_gap\<close> strips the user's skills, so that
  the skill \<^verbatim>\<open>' python'\<close> covers the requirement python of Data Analyst. The web route files
  the missing skills under the title, so that of two careers titled Data Analyst the first,
  which requires only python and misses nothing, is reported the missing skill of the
  second. And the scoring loop drops a required skill whose name is empty, so that it is
  not reported missing.
\<close>

theorem missing_skills_counterexample:
  "skill_gap (get_recommendations [''data''] []) ['' python''] ''Data Analyst''
     = Some {''sql'', ''statistics''} \<and>
   {s \<in> set [''python'', ''sql'', ''statistics'']. lower s \<notin> lower ` set ['' python'']}
     = {''python'', ''sql'', ''statistics''} \<and>
   (case recommend duplicate_title_db 2 of
      Inl e \<Rightarrow> False
    | Inr ctx \<Rightarrow>
        ctx_recs ctx = [\<lparr>rec_career = ''Data Analyst'', rec_skills = [''python'']\<rparr>,
                        \<lparr>rec_career = ''Data Analyst'', rec_skills = [''sql'']\<rparr>] \<and>
        ctx_gaps ctx ''Data Analyst'' = Some [''sql'']) \<and>
   required_skills_of (hd (careers duplicate_title_db)) = [''python''] \<and>
   lower ` set [''python''] - lower ` set (effective_skills example_user2) = {} \<and>
   (case recommend nameless_skill_db 2 of
      Inl e \<Rightarrow> False
    | Inr ctx \<Rightarrow> ctx_gaps ctx ''Data Analyst'' = Some [''sql'']) \<and>
   required_skills_of (hd (careers nameless_skill_db)) = [''sql'', []] \<and>
   lower ` set [''sql'', []] - lower ` set (effective_skills example_user2) = {''sql'', []}"
proof -
  have "skill_gap (get_recommendations [''data''] []) ['' python''] ''Data Analyst''
     = Some {''sql'', ''statistics''}"
    by code_simp
  moreover have "{s \<in> set [''python'', ''sql'', ''statistics'']. lower s \<notin> lower ` set ['' python'']}
     = {''python'', ''sql'', ''statistics''}"
    by code_simp
  moreover have "case recommend duplicate_title_db 2 of
      Inl e \<Rightarrow> False
    | Inr ctx \<Rightarrow>
        ctx_recs ctx = [\<lparr>rec_career = ''Data Analyst'', rec_skills = [''python'']\<rparr>,
                        \<lparr>rec_career = ''Data Analyst'', rec_skills = [''sql'']\<rparr>] \<and>
        ctx_gaps ctx ''Data Analyst'' = Some [''sql'']"
    by code_simp
  moreover have "required_skills_of (hd (careers duplicate_title_db)) = [''python'']"
    by code_simp
  moreover have "lower ` set [''python''] - lower ` set (effective_skills example_user2) = {}"
    by code_simp
  moreover have "case recommend nameless_skill_db 2 of
      Inl e \<Rightarrow> False
    | Inr ctx \<Rightarrow> ctx_gaps ctx ''Data Analyst'' = Some [''sql'']"
    by code_simp
  moreover have "required_skills_of (hd (careers nameless_skill_db)) = [''sql'', []]"
    by code_simp
  moreover have "lower ` set [''sql'', []] - lower ` set (effective_skills example_user2)
      = {''sql'', []}"
    by code_simp
  ultimately show ?thesis by blast
qed

section \<open>The run of \<^verbatim>\<open>build_roadmap\<close>\<close>

lemma run_more_fuel:
  "run n r m f = Some x \<Longrightarrow> run (n + k) r m f = Some x"
proof (induction n arbitrary: f)
  case 0
  then show ?case by simp
next
  case (Suc n)
  show ?case
  proof (cases "pc f = AtReturn")
    case True
    with Suc.prems show ?thesis by simp
  next
    case False
    show ?thesis
    proof (cases "step r m f")
      case (Inl e)
      with False Suc.prems have "x = Inl e" by simp
      with False Inl show ?thesis by simp
    next
      case (Inr f')
      with False Suc.prems have "run n r m f' = Some x" by simp
      then have "run (n + k) r m f' = Some x" by (rule Suc.IH)
      with False Inr show ?thesis by simp
    qed
  qed
qed

lemma foundation_line_Str:
  "foundation_line SKILL_RESOURCES_items (Str s) = Inr (foundation_step s)"
  by (simp add: foundation_line_def py_lower_def py_format_def foundation_step_def suggested_def
      SKILL_RESOURCES_def Let_def)

lemma core_line_Str: "core_line (Str s) = core_step s"
  by (simp add: core_line_def core_step_def py_format_def)

lemma run_foundations_loop:
  "run (length ms + Suc n) r m
       \<lparr>pc = InFoundationsLoop, iterator = map Str ms, steps_var = acc,
        core_steps_var = cs, phases_var = ps, table = SKILL_RESOURCES_items\<rparr>
   = run n r m
       \<lparr>pc = AtCorePractice, iterator = [], steps_var = acc @ map foundation_step ms,
        core_steps_var = cs,
        phases_var = ps @ [\<lparr>title = ''Foundations'', steps = acc @ map foundation_step ms\<rparr>],
        table = SKILL_RESOURCES_items\<rparr>"
proof (induction ms arbitrary: acc)
  case Nil
  show ?case by (simp add: step_def)
next
  case (Cons s ms)
  have "run (length (s # ms) + Suc n) r m
       \<lparr>pc = InFoundationsLoop, iterator = map Str (s # ms), steps_var = acc,
        core_steps_var = cs, phases_var = ps, table = SKILL_RESOURCES_items\<rparr>
     = run (length ms + Suc n) r m
       \<lparr>pc = InFoundationsLoop, iterator = map Str ms, steps_var = acc @ [foundation_step s],
        core_steps_var = cs, phases_var = ps, table = SKILL_RESOURCES_items\<rparr>"
    by (simp add: step_def foundation_line_Str)
  then show ?case
    by (simp only: Cons.IH) simp
qed

lemma run_core_loop:
  "run (length rs + Suc n) r m
       \<lparr>pc = InCoreLoop, iterator = map Str rs, steps_var = st,
        core_steps_var = acc, phases_var = ps, table = tbl\<rparr>
   = run n r m
       \<lparr>pc = AtProjects, iterator = [], steps_var = st,
        core_steps_var = acc @ map core_step rs,
        phases_var = ps @ [\<lparr>title = ''Core Practice'', steps = acc @ map core_step rs\<rparr>],
        table = tbl\<rparr>"
proof (induction rs arbitrary: acc)
  case Nil
  show ?case by (simp add: step_def)
next
  case (Cons s rs)
  have "run (length (s # rs) + Suc n) r m
       \<lparr>pc = InCoreLoop, iterator = map Str (s # rs), steps_var = st,
        core_steps_var = acc, phases_var = ps, table = tbl\<rparr>
     = run (length rs + Suc n) r m
       \<lparr>pc = InCoreLoop, iterator = map Str rs, steps_var = st,
        core_steps_var = acc @ [core_step s], phases_var = ps, table = tbl\<rparr>"
    by (simp add: step_def core_line_Str)
  then show ?case
    by (simp only: Cons.IH) simp
qed

lemma run_tail:
  "run (Suc (Suc (Suc (Suc n)))) r m
       \<lparr>pc = AtProjects, iterator = it, steps_var = st, core_steps_var = cs,
        phases_var = ps, table = tbl\<rparr>
   = Some (Inr \<lparr>pc = AtReturn, iterator = it, steps_var = st, core_steps_var = cs,
        phases_var = ps @ [projects_phase, portfolio_phase, apply_phase], table = tbl\<rparr>)"
  by (simp add: step_def)

lemma run_from_core:
  "run (Suc (length rs + Suc (Suc (Suc (Suc (Suc n)))))) (ListOf (map Str rs)) m
       \<lparr>pc = AtCorePractice, iterator = it, steps_var = st, core_steps_var = cs,
        phases_var = ps, table = tbl\<rparr>
   = Some (Inr \<lparr>pc = AtReturn, iterator = [], steps_var = st,
        core_steps_var = map core_step rs,
        phases_var = ps @ [\<lparr>title = ''Core Practice'', steps = map core_step rs\<rparr>,
                           projects_phase, portfolio_phase, apply_phase],
        table = tbl\<rparr>)"
proof -
  have "run (Suc (length rs + Suc (Suc (Suc (Suc (Suc n)))))) (ListOf (map Str rs)) m
       \<lparr>pc = AtCorePractice, iterator = it, steps_var = st, core_steps_var = cs,
        phases_var = ps, table = tbl\<rparr>
     = run (length rs + Suc (Suc (Suc (Suc (Suc n))))) (ListOf (map Str rs)) m
       \<lparr>pc = InCoreLoop, iterator = map Str rs, steps_var = st, core_steps_var = [],
        phases_var = ps, table = tbl\<rparr>"
    by (simp add: step_def py_iter_def)
  also have "\<dots> = run (Suc (Suc (Suc (Suc n)))) (ListOf (map Str rs)) m
       \<lparr>pc = AtProjects, iterator = [], steps_var = st,
        core_steps_var = [] @ map core_step rs,
        phases_var = ps @ [\<lparr>title = ''Core Practice'', steps = [] @ map core_step rs\<rparr>],
        table = tbl\<rparr>"
    by (rule run_core_loop)
  also have "\<dots> = Some (Inr \<lparr>pc = AtReturn, iterator = [], steps_var = st,
        core_steps_var = [] @ map core_step rs,
        phases_var = (ps @ [\<lparr>title = ''Core Practice'', steps = [] @ map core_step rs\<rparr>])
                       @ [projects_phase, portfolio_phase, apply_phase],
        table = tbl\<rparr>)"
    by (rule run_tail)
  finally show ?thesis by simp
qed


lemma run_returns:
  "\<exists>f. run (length ms + length rs + 8) (ListOf (map Str rs)) (ListOf (map Str ms)) initial_frame
          = Some (Inr f) \<and>
       phases_var f = build_roadmap t rs ms \<and> table f = SKILL_RESOURCES_items"
proof (cases "ms = []")
  case True
  have fuel: "length ms + length rs + 8
      = Suc (Suc (length rs + Suc (Suc (Suc (Suc (Suc (Suc 0)))))))"
    using True by simp
  have "run (length ms + length rs + 8) (ListOf (map Str rs)) (ListOf (map Str ms)) initial_frame
      = run (Suc (length rs + Suc (Suc (Suc (Suc (Suc (Suc 0)))))))
          (ListOf (map Str rs)) (ListOf (map Str ms))
          \<lparr>pc = AtCorePractice, iterator = [], steps_var = [], core_steps_var = [],
           phases_var = [], table = SKILL_RESOURCES_items\<rparr>"
    unfolding fuel using True by (simp add: initial_frame_def step_def truthy_def)
  also have "\<dots> = Some (Inr \<lparr>pc = AtReturn, iterator = [], steps_var = [],
        core_steps_var = map core_step rs,
        phases_var = [] @ [\<lparr>title = ''Core Practice'', steps = map core_step rs\<rparr>,
                           projects_phase, portfolio_phase, apply_phase],
        table = SKILL_RESOURCES_items\<rparr>)"
    by (rule run_from_core)
  finally show ?thesis
    using True by (simp add: build_roadmap_def roadmap_phases_eq)
next
  case False
  have fuel: "length ms + length rs + 8
      = Suc (length ms + Suc (Suc (length rs + Suc (Suc (Suc (Suc (Suc 0)))))))"
    by simp
  have "run (length ms + length rs + 8) (ListOf (map Str rs)) (ListOf (map Str ms)) initial_frame
      = run (length ms + Suc (Suc (length rs + Suc (Suc (Suc (Suc (Suc 0)))))))
          (ListOf (map Str rs)) (ListOf (map Str ms))
          \<lparr>pc = InFoundationsLoop, iterator = map Str ms, steps_var = [], core_steps_var = [],
           phases_var = [], table = SKILL_RESOURCES_items\<rparr>"
    unfolding fuel using False by (simp add: initial_frame_def step_def truthy_def py_iter_def)
  also have "\<dots> = run (Suc (length rs + Suc (Suc (Suc (Suc (Suc 0))))))
          (ListOf (map Str rs)) (ListOf (map Str ms))
          \<lparr>pc = AtCorePractice, iterator = [], steps_var = [] @ map foundation_step ms,
           core_steps_var = [],
           phases_var = [] @ [\<lparr>title = ''Foundations'', steps = [] @ map foundation_step ms\<rparr>],
           table = SKILL_RESOURCES_items\<rparr>"
    by (rule run_foundations_loop)
  also have "\<dots> = Some (Inr \<lparr>pc = AtReturn, iterator = [],
        steps_var = [] @ map foundation_step ms,
        core_steps_var = map core_step rs,
        phases_var = ([] @ [\<lparr>title = ''Foundations'', steps = [] @ map foundation_step ms\<rparr>])
                       @ [\<lparr>title = ''Core Practice'', steps = map core_step rs\<rparr>,
                          projects_phase, portfolio_phase, apply_phase],
        table = SKILL_RESOURCES_items\<rparr>)"
    by (rule run_from_core)
  finally show ?thesis
    using False by (simp add: build_roadmap_def roadmap_phases_eq)
qed

text \<open>
  C9. Run statement by statement on a career title, a list of required skills and a list of
  missing skills, all strings, \<^verbatim>\<open>build_roadmap\<close> reaches its \<^verbatim>\<open>return\<close> within
  \<open>length m + length r + 8\<close> statements (and so with any larger bound), no statement raises
  an exception, the value returned is the phase list the three arguments determine (the
  same for the same arguments), and the global table is as it was: nothing but the
  arguments and the table is read, and nothing outside the call is written.
\<close>

theorem build_roadmap_total_pure:
  "build_roadmap_run (length m + length r + 8 + k) (StrArg t) (ListOf (map Str r))
       (ListOf (map Str m))
     = Some (Inr (build_roadmap t r m, SKILL_RESOURCES_items))"
proof -
  obtain f where f: "run (length m + length r + 8) (ListOf (map Str r)) (ListOf (map Str m))
        initial_frame = Some (Inr f)"
      "phases_var f = build_roadmap t r m" "table f = SKILL_RESOURCES_items"
    using run_returns [of m r t] by blast
  from f(1) have "run (length m + length r + 8 + k) (ListOf (map Str r)) (ListOf (map Str m))
        initial_frame = Some (Inr f)"
    by (rule run_more_fuel)
  with f(2,3) show ?thesis
    by (simp add: build_roadmap_run_def)
qed

theorem build_roadmap_total_pure_witness:
  "build_roadmap_run 11 (StrArg ''Data Analyst'') (ListOf [Str ''python''])
       (ListOf [Str ''sql'', Str ''statistics''])
     = Some (Inr (build_roadmap ''Data Analyst'' [''python''] [''sql'', ''statistics''],
                  SKILL_RESOURCES_items))"
  using build_roadmap_total_pure [of "[''sql'', ''statistics'']" "[''python'']" 0 "''Data Analyst''"]
  by simp

text \<open>On other arguments the statements that can raise do raise, and a run cut short by its
  bound returns nothing.\<close>

lemma build_roadmap_run_failures:
  "build_roadmap_run 20 (StrArg ''Data Analyst'') NoneArg (ListOf [])
     = Some (Inl (TypeError ''NoneType'')) \<and>
   build_roadmap_run 20 (StrArg ''Data Analyst'') (ListOf []) (ListOf [NoneItem])
     = Some (Inl (AttributeError ''lower'')) \<and>
   build_roadmap_run 10 (StrArg ''Data Analyst'') (ListOf [Str ''python''])
       (ListOf [Str ''sql'', Str ''statistics''])
     = None"
  by code_simp

end
